theory Spec2Isabelle
  imports Main "HOL-Library.Word" "HOL-Library.AList"
begin

unbundle bit_operations_syntax

chapter \<open>Truffle: wire codec, election, device table, transport, mesh node, message bus\<close>

text \<open>
  A shallow embedding of the TypeScript sources. Mutable objects become records that are
  passed in and returned; a JavaScript \<open>Map\<close> becomes an association list in insertion
  order (\<open>map_of\<close> to look up, \<open>AList.update\<close> for \<open>set\<close>, \<open>AList.delete\<close> for
  \<open>delete\<close>); exceptions become \<open>Inl\<close> values; emitted events and calls into the sidecar
  are returned as a list of effects in program order. The listeners of an emitted event
  belong to other components: they are taken to return, except in the bus's dispatch,
  where the handlers and the \<open>error\<close> listeners are part of the model. Timers are
  recorded as effects and their callbacks are separate operations; readings of the clock
  are parameters.
\<close>

section \<open>JavaScript values\<close>

text \<open>
  The values that travel as envelopes and payloads. Numbers inside payloads are never
  inspected by the modelled code, so they are kept as integers.
\<close>

datatype jsval =
    JUndefined
  | JNull
  | JBool bool
  | JNum int
  | JStr string
  | JArr "jsval list"
  | JObj "(string \<times> jsval) list"

fun js_typeof :: "jsval \<Rightarrow> string" where
  "js_typeof JUndefined = ''undefined''"
| "js_typeof JNull = ''object''"
| "js_typeof (JBool b) = ''boolean''"
| "js_typeof (JNum n) = ''number''"
| "js_typeof (JStr s) = ''string''"
| "js_typeof (JArr xs) = ''object''"
| "js_typeof (JObj fs) = ''object''"

text \<open>Property read \<open>v.k\<close> for the two keys the codec reads (\<open>namespace\<close>, \<open>type\<close>):
  an object yields the stored value or \<open>undefined\<close>; arrays and primitives have no such
  property.\<close>

fun js_prop :: "jsval \<Rightarrow> string \<Rightarrow> jsval" where
  "js_prop (JObj fs) k = (case map_of fs k of Some v \<Rightarrow> v | None \<Rightarrow> JUndefined)"
| "js_prop v k = JUndefined"

text \<open>JavaScript truthiness of a \<open>string | null | undefined\<close> value.\<close>

definition truthy :: "string option \<Rightarrow> bool" where
  "truthy s = (case s of None \<Rightarrow> False | Some x \<Rightarrow> x \<noteq> [])"

section \<open>Wire codec (frame-codec.ts)\<close>

type_synonym byte = "8 word"

definition bytes_of :: "string \<Rightarrow> byte list" where
  "bytes_of s = map of_char s"

definition HEADER_SIZE :: nat where "HEADER_SIZE = 5"
definition FLAG_COMPRESSED :: byte where "FLAG_COMPRESSED = 0x01"
definition FLAG_FORMAT_MASK :: byte where "FLAG_FORMAT_MASK = 0x06"
definition FLAG_FORMAT_MSGPACK :: byte where "FLAG_FORMAT_MSGPACK = 0x00"
definition FLAG_FORMAT_JSON :: byte where "FLAG_FORMAT_JSON = 0x02"
definition MAX_MESSAGE_SIZE :: nat where "MAX_MESSAGE_SIZE = 16 * 1024 * 1024"

datatype SerializationFormat = Msgpack | Json

datatype CodecError =
    MessageTooLarge nat
  | CompressedFrameRequiresAsync
  | UnknownFormatFlag nat
  | InvalidMessageFormat
  | ParseFailure
  | ValueOutOfRange

text \<open>
  The two serializers are third-party code (\<open>@msgpack/msgpack\<close> and the built-in
  \<open>JSON\<close>), so the codec takes them as a parameter. \<open>json_stringify\<close> stands for
  \<open>Buffer.from(JSON.stringify(m), 'utf-8')\<close> and \<open>json_parse\<close> for
  \<open>JSON.parse(payload.toString('utf-8'))\<close>; a decoder that throws returns \<open>None\<close>.
\<close>

record Serializers =
  msgpack_encode :: "jsval \<Rightarrow> byte list"
  msgpack_decode :: "byte list \<Rightarrow> jsval option"
  json_stringify :: "jsval \<Rightarrow> byte list"
  json_parse :: "byte list \<Rightarrow> jsval option"

record DecodeResult =
  message :: jsval
  bytesConsumed :: nat
  wasCompressed :: bool

text \<open>\<open>Buffer.writeUInt32BE\<close> and \<open>Buffer.readUInt32BE\<close>. The writer raises a
  \<open>RangeError\<close> above \<open>2^32 - 1\<close> (checked in \<open>createFrame\<close> below); the reader is only
  called after the length check of \<open>decodeOne\<close>, where all four bytes exist.\<close>

definition writeUInt32BE :: "nat \<Rightarrow> byte list" where
  "writeUInt32BE n =
     [of_nat (n div 16777216), of_nat (n div 65536), of_nat (n div 256), of_nat n]"

definition readUInt32BE :: "byte list \<Rightarrow> nat \<Rightarrow> nat" where
  "readUInt32BE b off =
     unat (b ! off) * 16777216 + unat (b ! (off + 1)) * 65536
       + unat (b ! (off + 2)) * 256 + unat (b ! (off + 3))"

definition createFrame :: "byte list \<Rightarrow> byte \<Rightarrow> CodecError + byte list" where
  "createFrame payload flags =
     (if length payload > 4294967295 then Inl ValueOutOfRange
      else Inr (writeUInt32BE (length payload) @ [flags] @ payload))"

definition encode ::
  "Serializers \<Rightarrow> SerializationFormat \<Rightarrow> jsval \<Rightarrow> SerializationFormat option
     \<Rightarrow> CodecError + byte list" where
  "encode L defaultFormat msg format =
     (let useFormat = (case format of None \<Rightarrow> defaultFormat | Some f \<Rightarrow> f)
      in if useFormat = Msgpack
         then createFrame (msgpack_encode L msg) FLAG_FORMAT_MSGPACK
         else createFrame (json_stringify L msg) FLAG_FORMAT_JSON)"

definition deserialize :: "Serializers \<Rightarrow> byte list \<Rightarrow> byte \<Rightarrow> CodecError + jsval" where
  "deserialize L payload format =
     (case (if format = FLAG_FORMAT_MSGPACK
            then (case msgpack_decode L payload of
                    Some v \<Rightarrow> Inr v | None \<Rightarrow> Inl ParseFailure)
            else if format = FLAG_FORMAT_JSON
            then (case json_parse L payload of
                    Some v \<Rightarrow> Inr v | None \<Rightarrow> Inl ParseFailure)
            else Inl (UnknownFormatFlag (unat format))) of
        Inl err \<Rightarrow> Inl err
      | Inr parsed \<Rightarrow>
          if js_typeof parsed \<noteq> ''object'' \<or> parsed = JNull
             \<or> js_typeof (js_prop parsed ''namespace'') \<noteq> ''string''
             \<or> js_typeof (js_prop parsed ''type'') \<noteq> ''string''
          then Inl InvalidMessageFormat
          else Inr parsed)"

text \<open>\<open>decodeOne\<close>: \<open>Inr None\<close> is the source's \<open>null\<close> (more bytes needed).\<close>

definition decodeOne :: "Serializers \<Rightarrow> byte list \<Rightarrow> CodecError + DecodeResult option" where
  "decodeOne L buffer =
     (if length buffer < HEADER_SIZE then Inr None
      else
        let payloadLength = readUInt32BE buffer 0;
            flags = buffer ! 4
        in if payloadLength > MAX_MESSAGE_SIZE then Inl (MessageTooLarge payloadLength)
           else
             let totalLength = HEADER_SIZE + payloadLength
             in if length buffer < totalLength then Inr None
                else
                  let payload = take payloadLength (drop HEADER_SIZE buffer);
                      isCompressed = (flags AND FLAG_COMPRESSED = FLAG_COMPRESSED);
                      format = flags AND FLAG_FORMAT_MASK
                  in if isCompressed then Inl CompressedFrameRequiresAsync
                     else (case deserialize L payload format of
                             Inl err \<Rightarrow> Inl err
                           | Inr m \<Rightarrow>
                               Inr (Some \<lparr>message = m, bytesConsumed = totalLength,
                                          wasCompressed = False\<rparr>)))"

text \<open>What the serializer of a format writes and reads back, for stating the round trip.\<close>

definition lib_serialize :: "Serializers \<Rightarrow> SerializationFormat \<Rightarrow> jsval \<Rightarrow> byte list" where
  "lib_serialize L fmt m = (case fmt of Msgpack \<Rightarrow> msgpack_encode L m | Json \<Rightarrow> json_stringify L m)"

definition lib_parse :: "Serializers \<Rightarrow> SerializationFormat \<Rightarrow> byte list \<Rightarrow> jsval option" where
  "lib_parse L fmt bs = (case fmt of Msgpack \<Rightarrow> msgpack_decode L bs | Json \<Rightarrow> json_parse L bs)"

definition flag_of :: "SerializationFormat \<Rightarrow> byte" where
  "flag_of fmt = (case fmt of Msgpack \<Rightarrow> FLAG_FORMAT_MSGPACK | Json \<Rightarrow> FLAG_FORMAT_JSON)"

text \<open>An envelope as the codec's type \<open>NamespacedMessage\<close> has it: an object whose
  \<open>namespace\<close> and \<open>type\<close> are strings.\<close>

definition isEnvelope :: "jsval \<Rightarrow> bool" where
  "isEnvelope m \<longleftrightarrow>
     (case m of
        JObj fs \<Rightarrow> js_typeof (js_prop m ''namespace'') = ''string''
                    \<and> js_typeof (js_prop m ''type'') = ''string''
      | _ \<Rightarrow> False)"

text \<open>A sample instance of the serializers, fixed on two JSON texts, for concrete runs.\<close>

definition emptyNamespaceText :: string where
  \<open>emptyNamespaceText = ''{"namespace":"","type":"x"}''\<close>

definition emptyNamespaceEnvelope :: jsval where
  "emptyNamespaceEnvelope = JObj [(''namespace'', JStr ''''), (''type'', JStr ''x'')]"

definition helloText :: string where
  \<open>helloText = ''{"namespace":"test","type":"hello","payload":42}''\<close>

definition helloEnvelope :: jsval where
  "helloEnvelope =
     JObj [(''namespace'', JStr ''test''), (''type'', JStr ''hello''), (''payload'', JNum 42)]"

definition sampleSerializers :: Serializers where
  "sampleSerializers =
     \<lparr>msgpack_encode = (\<lambda>v. []),
      msgpack_decode = (\<lambda>bs. None),
      json_stringify = (\<lambda>v. if v = helloEnvelope then bytes_of helloText
                             else if v = emptyNamespaceEnvelope then bytes_of emptyNamespaceText
                             else []),
      json_parse = (\<lambda>bs. if bs = bytes_of helloText then Some helloEnvelope
                         else if bs = bytes_of emptyNamespaceText then Some emptyNamespaceEnvelope
                         else None)\<rparr>"

definition emptyNamespaceFrame :: "byte list" where
  "emptyNamespaceFrame = [0, 0, 0, 27, 2] @ bytes_of emptyNamespaceText"

section \<open>Election coordinator (primary-election.ts)\<close>

record ElectionCandidatePayload =
  cand_deviceId :: string
  uptime :: int
  userDesignated :: bool

record ElectionConfig =
  cfg_deviceId :: string
  cfg_startedAt :: int
  preferPrimary :: bool

datatype ElectionPhase = idle | waiting | collecting | decided

text \<open>The coordinator's state. The two timer handles are left out: no modelled
  operation reads them.\<close>

record PrimaryElection =
  config :: "ElectionConfig option"
  phase :: ElectionPhase
  el_primaryId :: "string option"
  candidates :: "(string \<times> ElectionCandidatePayload) list"


text \<open>\<open>isPrimary\<close> is \<open>state.primaryId === config?.deviceId\<close>: \<open>null\<close> never equals a
  string or \<open>undefined\<close>.\<close>

definition isPrimary :: "PrimaryElection \<Rightarrow> bool" where
  "isPrimary el =
     (case el_primaryId el of
        None \<Rightarrow> False
      | Some p \<Rightarrow> (case config el of None \<Rightarrow> False | Some c \<Rightarrow> p = cfg_deviceId c))"

definition getPrimaryId :: "PrimaryElection \<Rightarrow> string option" where
  "getPrimaryId el = el_primaryId el"

definition setPrimary :: "string \<Rightarrow> PrimaryElection \<Rightarrow> PrimaryElection" where
  "setPrimary d el = el\<lparr>el_primaryId := Some d, phase := idle\<rparr>"
























section \<open>Device table (device-manager.ts)\<close>

datatype DeviceRole = Primary | Secondary

datatype DeviceStatus = Online | Offline | Connecting

record BaseDevice =
  dev_id :: string
  dev_type :: string
  dev_name :: string
  tailscaleHostname :: string
  tailscaleDNSName :: "string option"
  tailscaleIP :: "string option"
  role :: "DeviceRole option"
  status :: DeviceStatus
  capabilities :: "string list"
  metadata :: "(string \<times> jsval) list option"
  lastSeen :: "int option"
  startedAt :: "int option"
  os :: "string option"
  latencyMs :: "int option"

record TailnetPeer =
  peer_id :: string
  hostname :: string
  dnsName :: string
  tailscaleIPs :: "string list"
  online :: bool
  peer_os :: "string option"

record DeviceIdentity =
  ident_id :: string
  ident_type :: string
  ident_name :: string
  ident_hostname :: string

record DeviceListPayload =
  list_devices :: "BaseDevice list"
  list_primaryId :: string

record DeviceManager =
  identity :: DeviceIdentity
  hostnamePrefix :: string
  localDevice :: BaseDevice
  devices :: "(string \<times> BaseDevice) list"
  primaryId :: "string option"

datatype DeviceManagerEvent =
    DeviceDiscovered BaseDevice
  | DeviceUpdated BaseDevice
  | DeviceOffline string
  | DevicesChanged "BaseDevice list"
  | PrimaryChanged "string option"
  | LocalDeviceChanged BaseDevice

text \<open>
  \<open>parseHostname\<close> matches the hostname against \<^verbatim>\<open>^{prefix}-([^-]+)-(.+)$\<close>. The prefix is
  an identifier without regular-expression metacharacters, so it matches itself; the
  type is the run of characters up to the next hyphen and must not be empty; the id is
  the rest, not empty and without a line terminator (which \<^verbatim>\<open>.\<close> does not match).
\<close>

definition parseHostname :: "string \<Rightarrow> string \<Rightarrow> (string \<times> string) option" where
  "parseHostname prefix h =
     (let p = prefix @ ''-''
      in if take (length p) h \<noteq> p then None
         else
           let rest = drop (length p) h;
               ty = takeWhile (\<lambda>c. c \<noteq> CHR ''-'') rest;
               after = dropWhile (\<lambda>c. c \<noteq> CHR ''-'') rest
           in if ty = [] then None
              else (case after of
                      [] \<Rightarrow> None
                    | hyphen # ident \<Rightarrow>
                        if ident = [] \<or> CHR 0x0A \<in> set ident \<or> CHR 0x0D \<in> set ident
                        then None
                        else Some (ty, ident)))"

definition newDeviceManager ::
  "DeviceIdentity \<Rightarrow> string \<Rightarrow> string list \<Rightarrow> (string \<times> jsval) list option \<Rightarrow> DeviceManager" where
  "newDeviceManager ident prefix caps meta =
     \<lparr>identity = ident,
      hostnamePrefix = prefix,
      localDevice =
        \<lparr>dev_id = ident_id ident, dev_type = ident_type ident, dev_name = ident_name ident,
         tailscaleHostname = ident_hostname ident, tailscaleDNSName = None,
         tailscaleIP = None, role = None, status = Offline, capabilities = caps,
         metadata = meta, lastSeen = None, startedAt = None, os = None, latencyMs = None\<rparr>,
      devices = [],
      primaryId = None\<rparr>"

definition getDevices :: "DeviceManager \<Rightarrow> BaseDevice list" where
  "getDevices dm = map snd (devices dm)"

definition getDeviceById :: "string \<Rightarrow> DeviceManager \<Rightarrow> BaseDevice option" where
  "getDeviceById i dm =
     (if i = ident_id (identity dm) then Some (localDevice dm) else map_of (devices dm) i)"

text \<open>\<open>peer.tailscaleIPs[0]\<close>: \<open>undefined\<close> for an empty array.\<close>

definition firstIP :: "string list \<Rightarrow> string option" where
  "firstIP ips = (case ips of [] \<Rightarrow> None | ip # rest \<Rightarrow> Some ip)"

definition addDiscoveredPeer ::
  "TailnetPeer \<Rightarrow> DeviceManager
     \<Rightarrow> BaseDevice option \<times> DeviceManager \<times> DeviceManagerEvent list" where
  "addDiscoveredPeer peer dm =
     (if hostname peer = ident_hostname (identity dm) then (None, dm, [])
      else
        (case parseHostname (hostnamePrefix dm) (hostname peer) of
           None \<Rightarrow> (None, dm, [])
         | Some (ty, ident) \<Rightarrow>
             let device =
               \<lparr>dev_id = ident, dev_type = ty, dev_name = hostname peer,
                tailscaleHostname = hostname peer,
                tailscaleDNSName = Some (dnsName peer),
                tailscaleIP = firstIP (tailscaleIPs peer), role = None,
                status = (if online peer then Online else Offline),
                capabilities = [], metadata = None, lastSeen = None, startedAt = None,
                os = peer_os peer, latencyMs = None\<rparr>
             in (case map_of (devices dm) (dev_id device) of
                   None \<Rightarrow>
                     let dm' = dm\<lparr>devices := AList.update (dev_id device) device (devices dm)\<rparr>
                     in (map_of (devices dm') (dev_id device), dm',
                         [DeviceDiscovered device, DevicesChanged (getDevices dm')])
                 | Some existing \<Rightarrow>
                     let existing' =
                           existing\<lparr>status := (if online peer then Online else Offline),
                                    tailscaleIP := firstIP (tailscaleIPs peer),
                                    tailscaleDNSName := Some (dnsName peer),
                                    os := (if truthy (peer_os peer) then peer_os peer
                                           else os existing)\<rparr>;
                         dm' = dm\<lparr>devices := AList.update (dev_id device) existing' (devices dm)\<rparr>
                     in (map_of (devices dm') (dev_id device), dm',
                         [DeviceUpdated existing', DevicesChanged (getDevices dm')]))))"

text \<open>The guard shared by \<open>handleDeviceAnnounce\<close> and \<open>handleDeviceList\<close>:
  \<open>if (existing?.tailscaleDNSName && !device.tailscaleDNSName)
       device.tailscaleDNSName = existing.tailscaleDNSName\<close>.\<close>

definition keepKnownDNSName :: "BaseDevice option \<Rightarrow> BaseDevice \<Rightarrow> BaseDevice" where
  "keepKnownDNSName existing device =
     (case existing of
        None \<Rightarrow> device
      | Some e \<Rightarrow>
          if truthy (tailscaleDNSName e) \<and> \<not> truthy (tailscaleDNSName device)
          then device\<lparr>tailscaleDNSName := tailscaleDNSName e\<rparr>
          else device)"

definition handleDeviceAnnounce ::
  "string \<Rightarrow> BaseDevice \<Rightarrow> DeviceManager \<Rightarrow> DeviceManager \<times> DeviceManagerEvent list" where
  "handleDeviceAnnounce from announced dm =
     (let existing = map_of (devices dm) (dev_id announced);
          device = keepKnownDNSName existing announced;
          dm' = dm\<lparr>devices := AList.update (dev_id device) device (devices dm)\<rparr>
      in (dm',
          [if existing = None then DeviceDiscovered device else DeviceUpdated device,
           DevicesChanged (getDevices dm')]))"

fun upsertListed ::
  "string \<Rightarrow> BaseDevice list \<Rightarrow> (string \<times> BaseDevice) list \<Rightarrow> (string \<times> BaseDevice) list" where
  "upsertListed localId [] ds = ds"
| "upsertListed localId (device # rest) ds =
     (if dev_id device \<noteq> localId
      then upsertListed localId rest
             (AList.update (dev_id device)
                (keepKnownDNSName (map_of ds (dev_id device)) device) ds)
      else upsertListed localId rest ds)"

definition handleDeviceList ::
  "string \<Rightarrow> DeviceListPayload \<Rightarrow> DeviceManager \<Rightarrow> DeviceManager \<times> DeviceManagerEvent list" where
  "handleDeviceList from payload dm =
     (let dm1 = dm\<lparr>devices :=
                   upsertListed (ident_id (identity dm)) (list_devices payload) (devices dm)\<rparr>
      in if list_primaryId payload \<noteq> []
         then
           let dm2 = dm1\<lparr>primaryId := Some (list_primaryId payload),
                        localDevice := (localDevice dm1)
                          \<lparr>role := Some (if list_primaryId payload = ident_id (identity dm1)
                                         then Primary else Secondary)\<rparr>,
                        devices := map (\<lambda>(k, d). (k, d\<lparr>role :=
                                      Some (if dev_id d = list_primaryId payload
                                            then Primary else Secondary)\<rparr>))
                                    (devices dm1)\<rparr>
           in (dm2, [PrimaryChanged (Some (list_primaryId payload)),
                     DevicesChanged (getDevices dm2)])
         else (dm1, [DevicesChanged (getDevices dm1)]))"

definition markDeviceOffline ::
  "string \<Rightarrow> DeviceManager \<Rightarrow> DeviceManager \<times> DeviceManagerEvent list" where
  "markDeviceOffline deviceId dm =
     (case map_of (devices dm) deviceId of
        None \<Rightarrow> (dm, [])
      | Some device \<Rightarrow>
          let dm1 = dm\<lparr>devices :=
                        AList.update deviceId (device\<lparr>status := Offline\<rparr>) (devices dm)\<rparr>
          in if Some deviceId = primaryId dm1
             then (dm1\<lparr>primaryId := None\<rparr>,
                   [DeviceOffline deviceId, DevicesChanged (getDevices dm1),
                    PrimaryChanged None])
             else (dm1, [DeviceOffline deviceId, DevicesChanged (getDevices dm1)]))"

definition handleDeviceGoodbye ::
  "string \<Rightarrow> DeviceManager \<Rightarrow> DeviceManager \<times> DeviceManagerEvent list" where
  "handleDeviceGoodbye deviceId dm = markDeviceOffline deviceId dm"

text \<open>Sequences of the five table operations.\<close>

datatype DeviceOp =
    OpAddDiscoveredPeer TailnetPeer
  | OpDeviceAnnounce string BaseDevice
  | OpDeviceList string DeviceListPayload
  | OpDeviceGoodbye string
  | OpMarkDeviceOffline string

fun applyOp :: "DeviceOp \<Rightarrow> DeviceManager \<Rightarrow> DeviceManager \<times> DeviceManagerEvent list" where
  "applyOp (OpAddDiscoveredPeer peer) dm = snd (addDiscoveredPeer peer dm)"
| "applyOp (OpDeviceAnnounce from device) dm = handleDeviceAnnounce from device dm"
| "applyOp (OpDeviceList from payload) dm = handleDeviceList from payload dm"
| "applyOp (OpDeviceGoodbye deviceId) dm = handleDeviceGoodbye deviceId dm"
| "applyOp (OpMarkDeviceOffline deviceId) dm = markDeviceOffline deviceId dm"

fun runOps :: "DeviceOp list \<Rightarrow> DeviceManager \<Rightarrow> DeviceManager \<times> DeviceManagerEvent list" where
  "runOps [] dm = (dm, [])"
| "runOps (op # ops) dm =
     (let (dm1, evs1) = applyOp op dm; (dm2, evs2) = runOps ops dm1 in (dm2, evs1 @ evs2))"

text \<open>The table invariant: a primary id that is set names the local device or a row.\<close>

definition primaryKnown :: "DeviceManager \<Rightarrow> bool" where
  "primaryKnown dm \<longleftrightarrow>
     (case primaryId dm of
        None \<Rightarrow> True
      | Some p \<Rightarrow> p = ident_id (identity dm) \<or> map_of (devices dm) p \<noteq> None)"

text \<open>A device list that names no primary, or lists the primary among its devices (as
  the lists built by \<open>broadcastDeviceList\<close> do).\<close>

fun listsItsPrimary :: "DeviceOp \<Rightarrow> bool" where
  "listsItsPrimary (OpDeviceList from payload) =
     (list_primaryId payload = [] \<or> list_primaryId payload \<in> dev_id ` set (list_devices payload))"
| "listsItsPrimary op = True"

text \<open>Concrete tables for the scenarios below: the node \<open>dev-1\<close> of the application
  \<open>myapp\<close>, and its peer \<open>dev-2\<close> as the overlay lists it.\<close>

definition dev1Manager :: DeviceManager where
  "dev1Manager =
     newDeviceManager
       \<lparr>ident_id = ''dev-1'', ident_type = ''desktop'', ident_name = ''My PC'',
        ident_hostname = ''myapp-desktop-dev-1''\<rparr>
       ''myapp'' [''pty''] None"

definition peerDev2 :: "string \<Rightarrow> bool \<Rightarrow> TailnetPeer" where
  "peerDev2 dns on =
     \<lparr>peer_id = ''peer-2'', hostname = ''myapp-desktop-dev-2'', dnsName = dns,
      tailscaleIPs = [''100.64.0.2''], online = on, peer_os = None\<rparr>"

definition remoteDev2 :: BaseDevice where
  "remoteDev2 =
     \<lparr>dev_id = ''dev-2'', dev_type = ''desktop'', dev_name = ''Other'',
      tailscaleHostname = ''myapp-desktop-dev-2'', tailscaleDNSName = None,
      tailscaleIP = None, role = None, status = Online, capabilities = [],
      metadata = None, lastSeen = None, startedAt = None, os = None, latencyMs = None\<rparr>"
definition listDev2Primary :: DeviceListPayload where
  "listDev2Primary = \<lparr>list_devices = [remoteDev2], list_primaryId = ''dev-2''\<rparr>"

definition listGhostPrimary :: DeviceListPayload where
  "listGhostPrimary = \<lparr>list_devices = [], list_primaryId = ''ghost''\<rparr>"

definition sampleOps :: "DeviceOp list" where
  "sampleOps =
     [OpAddDiscoveredPeer (peerDev2 ''myapp-desktop-dev-2.ts.net'' True),
      OpDeviceList ''dev-2'' listDev2Primary,
      OpDeviceAnnounce ''dev-2'' remoteDev2,
      OpDeviceGoodbye ''dev-2'']"

section \<open>Connection transport (transport/src/index.ts)\<close>

datatype Direction = Incoming | Outgoing

datatype ConnStatus = ConnConnecting | ConnConnected | ConnDisconnected

text \<open>A connection row. The timestamps, the heartbeat timer and the metadata bag are
  left out: no operation modelled here reads them.\<close>

record WSConnection =
  conn_id :: string
  conn_deviceId :: "string option"
  direction :: Direction
  remoteAddr :: string
  conn_status :: ConnStatus

text \<open>An entry of the reconnect ledger; \<open>timer\<close> holds the delay of the armed timer.\<close>

record ReconnectInfo =
  rc_deviceId :: string
  rc_hostname :: string
  rc_dnsName :: "string option"
  rc_port :: nat
  attempt :: nat
  timer :: "int option"

record WebSocketTransport =
  autoReconnect :: bool
  maxReconnectDelayMs :: int
  running :: bool
  connections :: "(string \<times> WSConnection) list"
  deviceToConnection :: "(string \<times> string) list"
  reconnects :: "(string \<times> ReconnectInfo) list"

datatype TransportEffect =
    EmitConnected WSConnection
  | EmitDisconnected string string
  | EmitReconnecting string nat int
  | EmitDeviceIdentified string string
  | SidecarDial string string "string option" nat
  | SidecarDialClose string
  | SidecarDialSend string string
  | SidecarSendToConnection string string
  | SetReconnectTimer string int

datatype TransportError = TransportNotRunning | TransportAlreadyRunning

definition newTransport :: "bool \<Rightarrow> int \<Rightarrow> WebSocketTransport" where
  "newTransport autoRc maxDelay =
     \<lparr>autoReconnect = autoRc, maxReconnectDelayMs = maxDelay, running = False,
      connections = [], deviceToConnection = [], reconnects = []\<rparr>"

definition startTransport :: "WebSocketTransport \<Rightarrow> TransportError + WebSocketTransport" where
  "startTransport t =
     (if running t then Inl TransportAlreadyRunning else Inr (t\<lparr>running := True\<rparr>))"

definition getConnection :: "string \<Rightarrow> WebSocketTransport \<Rightarrow> WSConnection option" where
  "getConnection connectionId t = map_of (connections t) connectionId"

definition getConnectionByDeviceId :: "string \<Rightarrow> WebSocketTransport \<Rightarrow> WSConnection option" where
  "getConnectionByDeviceId d t =
     (case map_of (deviceToConnection t) d of
        None \<Rightarrow> None
      | Some connectionId \<Rightarrow> if connectionId = [] then None else getConnection connectionId t)"

definition getConnections :: "WebSocketTransport \<Rightarrow> WSConnection list" where
  "getConnections t = map snd (connections t)"

definition cancelReconnect :: "string \<Rightarrow> WebSocketTransport \<Rightarrow> WebSocketTransport" where
  "cancelReconnect d t = t\<lparr>reconnects := AList.delete d (reconnects t)\<rparr>"

text \<open>The decimal digits of a port number, for the template string
  \<^verbatim>\<open>`${hostname}:${port}`\<close>.\<close>

fun decimal :: "nat \<Rightarrow> string" where
  "decimal n =
     (if n < 10 then [''0123456789'' ! n]
      else decimal (n div 10) @ [''0123456789'' ! (n mod 10)])"

text \<open>
  \<open>connect\<close>, up to the point where its promise is created: the placeholder row, the
  index entry, the fresh ledger entry (attempt 0) and the dial command. The promise
  settles later: on \<open>dialConnected\<close> (where \<open>handleDialConnected\<close> below has already
  marked the row connected), or by rejection on \<open>dialError\<close> or after 10 s
  (\<open>connectRejected\<close>).
\<close>

definition connect ::
  "string \<Rightarrow> string \<Rightarrow> string option \<Rightarrow> nat \<Rightarrow> WebSocketTransport
     \<Rightarrow> TransportError + WebSocketTransport \<times> TransportEffect list" where
  "connect d host dns port t =
     (if \<not> running t then Inl TransportNotRunning
      else if (case getConnectionByDeviceId d t of
                 Some existing \<Rightarrow> conn_status existing = ConnConnected
               | None \<Rightarrow> False)
      then Inr (t, [])
      else
        let connectionId = ''dial:'' @ d;
            conn = \<lparr>conn_id = connectionId, conn_deviceId = Some d, direction = Outgoing,
                    remoteAddr = host @ '':'' @ decimal port, conn_status = ConnConnecting\<rparr>;
            t1 = t\<lparr>connections := AList.update connectionId conn (connections t),
                   deviceToConnection := AList.update d connectionId (deviceToConnection t)\<rparr>;
            t2 = cancelReconnect d t1;
            t3 = (if autoReconnect t2
                  then t2\<lparr>reconnects :=
                          AList.update d
                            \<lparr>rc_deviceId = d, rc_hostname = host, rc_dnsName = dns,
                             rc_port = port, attempt = 0, timer = None\<rparr>
                            (reconnects t2)\<rparr>
                  else t2)
        in Inr (t3, [SidecarDial d host dns port]))"

definition connectRejected :: "string \<Rightarrow> WebSocketTransport \<Rightarrow> WebSocketTransport" where
  "connectRejected d t =
     t\<lparr>connections := AList.delete (''dial:'' @ d) (connections t),
       deviceToConnection := AList.delete d (deviceToConnection t)\<rparr>"

definition setConnectionDeviceId ::
  "string \<Rightarrow> string \<Rightarrow> WebSocketTransport \<Rightarrow> WebSocketTransport \<times> TransportEffect list" where
  "setConnectionDeviceId connectionId d t =
     (case map_of (connections t) connectionId of
        None \<Rightarrow> (t, [])
      | Some conn \<Rightarrow>
          let idx1 = (if truthy (conn_deviceId conn)
                      then (case conn_deviceId conn of
                              Some old \<Rightarrow> AList.delete old (deviceToConnection t)
                            | None \<Rightarrow> deviceToConnection t)
                      else deviceToConnection t)
          in (t\<lparr>connections :=
                   AList.update connectionId (conn\<lparr>conn_deviceId := Some d\<rparr>) (connections t),
                 deviceToConnection := AList.update d connectionId idx1\<rparr>,
              [EmitDeviceIdentified connectionId d]))"

text \<open>\<open>sendRaw\<close>. The sidecar client's send methods return silently when the sidecar is
  not running and do not throw, so the \<open>catch\<close> branch is not reached.\<close>

definition sendRaw ::
  "string \<Rightarrow> string \<Rightarrow> WebSocketTransport \<Rightarrow> bool \<times> TransportEffect list" where
  "sendRaw connectionId data t =
     (case map_of (connections t) connectionId of
        None \<Rightarrow> (False, [])
      | Some conn \<Rightarrow>
          if conn_status conn \<noteq> ConnConnected then (False, [])
          else
            (case conn_deviceId conn of
               Some d \<Rightarrow>
                 if direction conn = Outgoing \<and> d \<noteq> []
                 then (True, [SidecarDialSend d data])
                 else (True, [SidecarSendToConnection
                                (if take 9 connectionId = ''incoming:''
                                 then drop 9 connectionId else connectionId) data])
             | None \<Rightarrow>
                 (True, [SidecarSendToConnection
                           (if take 9 connectionId = ''incoming:''
                            then drop 9 connectionId else connectionId) data])))"

definition handleWsConnect ::
  "string \<Rightarrow> string \<Rightarrow> WebSocketTransport \<Rightarrow> WebSocketTransport \<times> TransportEffect list" where
  "handleWsConnect tsnetConnectionId addr t =
     (let connectionId = ''incoming:'' @ tsnetConnectionId;
          conn = \<lparr>conn_id = connectionId, conn_deviceId = None, direction = Incoming,
                  remoteAddr = addr, conn_status = ConnConnected\<rparr>
      in (t\<lparr>connections := AList.update connectionId conn (connections t)\<rparr>,
          [EmitConnected conn]))"

definition handleWsDisconnect ::
  "string \<Rightarrow> string option \<Rightarrow> WebSocketTransport \<Rightarrow> WebSocketTransport \<times> TransportEffect list" where
  "handleWsDisconnect tsnetConnectionId reason t =
     (let connectionId = ''incoming:'' @ tsnetConnectionId
      in (case map_of (connections t) connectionId of
            None \<Rightarrow> (t, [])
          | Some conn \<Rightarrow>
              (t\<lparr>deviceToConnection :=
                    (if truthy (conn_deviceId conn)
                     then (case conn_deviceId conn of
                             Some d \<Rightarrow> AList.delete d (deviceToConnection t)
                           | None \<Rightarrow> deviceToConnection t)
                     else deviceToConnection t),
                  connections := AList.delete connectionId (connections t)\<rparr>,
               [EmitDisconnected connectionId
                  (case reason of
                     Some r \<Rightarrow> if r \<noteq> [] then r else ''remote_closed''
                   | None \<Rightarrow> ''remote_closed'')])))"

definition handleDialConnected ::
  "string \<Rightarrow> string \<Rightarrow> WebSocketTransport \<Rightarrow> WebSocketTransport \<times> TransportEffect list" where
  "handleDialConnected d addr t =
     (let connectionId = ''dial:'' @ d
      in (case map_of (connections t) connectionId of
            None \<Rightarrow> (t, [])
          | Some conn \<Rightarrow>
              let conn' = conn\<lparr>conn_status := ConnConnected, remoteAddr := addr\<rparr>;
                  t1 = t\<lparr>connections := AList.update connectionId conn' (connections t)\<rparr>;
                  t2 = (case map_of (reconnects t1) d of
                          None \<Rightarrow> t1
                        | Some info \<Rightarrow>
                            t1\<lparr>reconnects :=
                                 AList.update d (info\<lparr>attempt := 0\<rparr>) (reconnects t1)\<rparr>)
              in (t2, [EmitConnected conn'])))"

definition scheduleReconnect ::
  "string \<Rightarrow> WebSocketTransport \<Rightarrow> WebSocketTransport \<times> TransportEffect list" where
  "scheduleReconnect d t =
     (if \<not> autoReconnect t \<or> \<not> running t then (t, [])
      else
        (case map_of (reconnects t) d of
           None \<Rightarrow> (t, [])
         | Some info \<Rightarrow>
             let n = attempt info + 1;
                 delayMs = min (1000 * 2 ^ (n - 1)) (maxReconnectDelayMs t)
             in (t\<lparr>reconnects :=
                     AList.update d (info\<lparr>attempt := n, timer := Some delayMs\<rparr>) (reconnects t)\<rparr>,
                 [EmitReconnecting d n delayMs, SetReconnectTimer d delayMs])))"

definition handleDialDisconnect ::
  "string \<Rightarrow> string option \<Rightarrow> WebSocketTransport \<Rightarrow> WebSocketTransport \<times> TransportEffect list" where
  "handleDialDisconnect d reason t =
     (let connectionId = ''dial:'' @ d
      in (case map_of (connections t) connectionId of
            None \<Rightarrow> (t, [])
          | Some conn \<Rightarrow>
              let t1 = t\<lparr>deviceToConnection := AList.delete d (deviceToConnection t),
                         connections := AList.delete connectionId (connections t)\<rparr>;
                  (t2, fx) = scheduleReconnect d t1
              in (t2,
                  EmitDisconnected connectionId
                    (case reason of
                       Some r \<Rightarrow> if r \<noteq> [] then r else ''remote_closed''
                     | None \<Rightarrow> ''remote_closed'') # fx)))"

text \<open>The reconnect timer's callback, and the \<open>catch\<close> of the \<open>connect\<close> it starts: on
  \<open>dialError\<close> (or after 10 s) that \<open>connect\<close> removes its placeholder row and rejects, and
  the \<open>catch\<close> schedules the next reconnect. \<open>handleDialError\<close>, which \<open>dialError\<close> reaches
  as well, reports the error and leaves the transport as it is.\<close>

definition reconnectTimerFired ::
  "string \<Rightarrow> WebSocketTransport \<Rightarrow> TransportError + WebSocketTransport \<times> TransportEffect list" where
  "reconnectTimerFired d t =
     (if \<not> running t then Inr (t, [])
      else
        (case map_of (reconnects t) d of
           None \<Rightarrow> Inr (t, [])
         | Some info \<Rightarrow>
             connect d (rc_hostname info) (rc_dnsName info) (rc_port info)
               (t\<lparr>reconnects := AList.update d (info\<lparr>timer := None\<rparr>) (reconnects t)\<rparr>)))"

definition reconnectFailed ::
  "string \<Rightarrow> WebSocketTransport \<Rightarrow> WebSocketTransport \<times> TransportEffect list" where
  "reconnectFailed d t = scheduleReconnect d (connectRejected d t)"

definition stopTransport :: "WebSocketTransport \<Rightarrow> WebSocketTransport \<times> TransportEffect list" where
  "stopTransport t =
     (if \<not> running t then (t, [])
      else
        (t\<lparr>reconnects := [], connections := [], deviceToConnection := [], running := False\<rparr>,
         concat (map (\<lambda>(cid, conn).
                   (case conn_deviceId conn of
                      Some d \<Rightarrow> if direction conn = Outgoing \<and> d \<noteq> []
                                then [SidecarDialClose d] else []
                    | None \<Rightarrow> [])
                   @ [EmitDisconnected cid ''service_stopped''])
                 (connections t))))"

text \<open>Runs of transport events, for the concrete scenarios: each step takes the
  transport of the step before.\<close>

definition afterConnect :: "string \<Rightarrow> string \<Rightarrow> WebSocketTransport \<Rightarrow> WebSocketTransport" where
  "afterConnect d host t =
     (case connect d host None 443 t of Inr (t', fx) \<Rightarrow> t' | Inl err \<Rightarrow> t)"

definition runningTransport :: WebSocketTransport where
  "runningTransport = (newTransport True 30000)\<lparr>running := True\<rparr>"

text \<open>\<open>dev-2\<close> was dialled and the dial completed; then \<open>dev-2\<close> connected inwards as
  well and announced itself on that stream.\<close>

definition dialledAndAccepted :: WebSocketTransport where
  "dialledAndAccepted =
     fst (setConnectionDeviceId ''incoming:c1'' ''dev-2''
       (fst (handleWsConnect ''c1'' ''100.64.0.2:51000''
         (fst (handleDialConnected ''dev-2'' ''100.64.0.2:443''
           (afterConnect ''dev-2'' ''myapp-desktop-dev-2'' runningTransport))))))"

text \<open>
  The peer goes away. \<open>dev-2\<close> was dialled and the dial completed; then the stream
  drops (the sidecar reports \<open>dialDisconnect\<close>), and each redial that the reconnect timer
  starts is refused (\<open>dialError\<close>), so that its \<open>connect\<close> rejects.
\<close>

definition dev2Connected :: WebSocketTransport where
  "dev2Connected =
     fst (handleDialConnected ''dev-2'' ''100.64.0.2:443''
       (afterConnect ''dev-2'' ''myapp-desktop-dev-2'' runningTransport))"

definition dev2Dropped :: "WebSocketTransport \<times> TransportEffect list" where
  "dev2Dropped = handleDialDisconnect ''dev-2'' (Some ''read pump closed'') dev2Connected"

text \<open>One round of the reconnect loop for \<open>dev-2\<close>: the timer fires and dials, the dial
  is refused. The effects of both steps are returned in order.\<close>

definition redialRefused ::
  "WebSocketTransport \<Rightarrow> WebSocketTransport \<times> TransportEffect list" where
  "redialRefused t =
     (case reconnectTimerFired ''dev-2'' t of
        Inl err \<Rightarrow> (t, [])
      | Inr (t1, fx1) \<Rightarrow>
          (case reconnectFailed ''dev-2'' t1 of (t2, fx2) \<Rightarrow> (t2, fx1 @ fx2)))"

section \<open>Mesh node (mesh-node.ts) and message bus (mesh-message-bus.ts)\<close>

record MeshEnvelope =
  env_namespace :: string
  env_type :: string
  env_payload :: jsval
  env_timestamp :: "int option"

record IncomingMeshMessage =
  im_from :: "string option"
  im_connectionId :: string
  im_namespace :: string
  im_type :: string
  im_payload :: jsval

record MeshNode =
  deviceManager :: DeviceManager
  transport :: WebSocketTransport
  election :: PrimaryElection

datatype NodeEffect =
    EmitMessage IncomingMeshMessage
  | Transport TransportEffect
  | LogWarn string

definition MESH_NAMESPACE :: string where
  "MESH_NAMESPACE = ''mesh''"

text \<open>The envelope as a JavaScript object, and the object literal
  \<open>{...envelope, timestamp: envelope.timestamp ?? Date.now()}\<close> that goes on the wire.\<close>

definition envelopeObject :: "MeshEnvelope \<Rightarrow> jsval" where
  "envelopeObject env =
     JObj ([(''namespace'', JStr (env_namespace env)), (''type'', JStr (env_type env)),
            (''payload'', env_payload env)]
           @ (case env_timestamp env of None \<Rightarrow> [] | Some ts \<Rightarrow> [(''timestamp'', JNum ts)]))"

definition stampedEnvelope :: "int \<Rightarrow> MeshEnvelope \<Rightarrow> jsval" where
  "stampedEnvelope now env =
     JObj [(''namespace'', JStr (env_namespace env)), (''type'', JStr (env_type env)),
           (''payload'', env_payload env),
           (''timestamp'', JNum (case env_timestamp env of Some ts \<Rightarrow> ts | None \<Rightarrow> now))]"

definition localMessage :: "string \<Rightarrow> MeshEnvelope \<Rightarrow> IncomingMeshMessage" where
  "localMessage localDeviceId env =
     \<lparr>im_from = Some localDeviceId, im_connectionId = ''local'',
      im_namespace = env_namespace env, im_type = env_type env,
      im_payload = env_payload env\<rparr>"

definition routeMessageEnvelope :: "string \<Rightarrow> MeshEnvelope \<Rightarrow> MeshEnvelope" where
  "routeMessageEnvelope target env =
     \<lparr>env_namespace = MESH_NAMESPACE, env_type = ''route:message'',
      env_payload = JObj [(''targetDeviceId'', JStr target), (''envelope'', envelopeObject env)],
      env_timestamp = None\<rparr>"

definition routeBroadcastEnvelope :: "MeshEnvelope \<Rightarrow> MeshEnvelope" where
  "routeBroadcastEnvelope env =
     \<lparr>env_namespace = MESH_NAMESPACE, env_type = ''route:broadcast'',
      env_payload = JObj [(''envelope'', envelopeObject env)],
      env_timestamp = None\<rparr>"

text \<open>The node's operations take \<open>JSON.stringify\<close> (\<open>stringify\<close>) and the clock reading
  \<open>Date.now()\<close> (\<open>now\<close>) as parameters and return what they emit and send.\<close>

definition sendEnvelopeDirect ::
  "(jsval \<Rightarrow> string) \<Rightarrow> int \<Rightarrow> MeshNode \<Rightarrow> string \<Rightarrow> MeshEnvelope \<Rightarrow> bool \<times> NodeEffect list" where
  "sendEnvelopeDirect stringify now node d env =
     (case getConnectionByDeviceId d (transport node) of
        None \<Rightarrow> (False, [])
      | Some conn \<Rightarrow>
          let data = stringify (stampedEnvelope now env);
              (ok, fx) = sendRaw (conn_id conn) data (transport node)
          in (ok, map Transport fx))"

definition sendEnvelope ::
  "(jsval \<Rightarrow> string) \<Rightarrow> int \<Rightarrow> MeshNode \<Rightarrow> string \<Rightarrow> MeshEnvelope \<Rightarrow> bool \<times> NodeEffect list" where
  "sendEnvelope stringify now node d env =
     (let localDeviceId = ident_id (identity (deviceManager node))
      in if d = localDeviceId then (True, [EmitMessage (localMessage localDeviceId env)])
         else
           (case getConnectionByDeviceId d (transport node) of
              None \<Rightarrow>
                if \<not> isPrimary (election node)
                then (case getPrimaryId (election node) of
                        Some p \<Rightarrow>
                          if p \<noteq> []
                          then sendEnvelopeDirect stringify now node p (routeMessageEnvelope d env)
                          else (False, [LogWarn (''No connection to device '' @ d)])
                      | None \<Rightarrow> (False, [LogWarn (''No connection to device '' @ d)]))
                else (False, [LogWarn (''No connection to device '' @ d)])
            | Some conn \<Rightarrow> sendEnvelopeDirect stringify now node d env))"

fun sendToAll ::
  "(jsval \<Rightarrow> string) \<Rightarrow> int \<Rightarrow> MeshNode \<Rightarrow> MeshEnvelope \<Rightarrow> WSConnection list \<Rightarrow> NodeEffect list" where
  "sendToAll stringify now node env [] = []"
| "sendToAll stringify now node env (conn # rest) =
     (case conn_deviceId conn of
        Some d \<Rightarrow>
          if d \<noteq> [] \<and> conn_status conn = ConnConnected
          then snd (sendEnvelopeDirect stringify now node d env)
                 @ sendToAll stringify now node env rest
          else sendToAll stringify now node env rest
      | None \<Rightarrow> sendToAll stringify now node env rest)"

definition broadcastEnvelope ::
  "(jsval \<Rightarrow> string) \<Rightarrow> int \<Rightarrow> MeshNode \<Rightarrow> MeshEnvelope \<Rightarrow> NodeEffect list" where
  "broadcastEnvelope stringify now node env =
     (let localDeviceId = ident_id (identity (deviceManager node))
      in if isPrimary (election node)
         then sendToAll stringify now node env (getConnections (transport node))
                @ [EmitMessage (localMessage localDeviceId env)]
         else
           (case getPrimaryId (election node) of
              Some p \<Rightarrow>
                if p \<noteq> []
                then snd (sendEnvelopeDirect stringify now node p (routeBroadcastEnvelope env))
                else []
            | None \<Rightarrow> []))"

text \<open>The bus's \<open>publish\<close> and \<open>broadcast\<close> wrap their arguments and forward.\<close>

definition publish ::
  "(jsval \<Rightarrow> string) \<Rightarrow> int \<Rightarrow> MeshNode \<Rightarrow> string \<Rightarrow> string \<Rightarrow> string \<Rightarrow> jsval
     \<Rightarrow> bool \<times> NodeEffect list" where
  "publish stringify now node d ns ty pl =
     sendEnvelope stringify now node d
       \<lparr>env_namespace = ns, env_type = ty, env_payload = pl, env_timestamp = None\<rparr>"

definition broadcast ::
  "(jsval \<Rightarrow> string) \<Rightarrow> int \<Rightarrow> MeshNode \<Rightarrow> string \<Rightarrow> string \<Rightarrow> jsval \<Rightarrow> NodeEffect list" where
  "broadcast stringify now node ns ty pl =
     broadcastEnvelope stringify now node
       \<lparr>env_namespace = ns, env_type = ty, env_payload = pl, env_timestamp = None\<rparr>"

text \<open>What \<open>sendRaw\<close> hands to the sidecar for a connected row.\<close>

definition wireSend :: "WSConnection \<Rightarrow> string \<Rightarrow> TransportEffect" where
  "wireSend conn data =
     (case conn_deviceId conn of
        Some d \<Rightarrow>
          if direction conn = Outgoing \<and> d \<noteq> [] then SidecarDialSend d data
          else SidecarSendToConnection
                 (if take 9 (conn_id conn) = ''incoming:'' then drop 9 (conn_id conn)
                  else conn_id conn) data
      | None \<Rightarrow>
          SidecarSendToConnection
            (if take 9 (conn_id conn) = ''incoming:'' then drop 9 (conn_id conn)
             else conn_id conn) data)"

subsection \<open>Dispatch to subscribers\<close>

record BusMessage =
  bm_from :: "string option"
  bm_namespace :: string
  bm_type :: string
  bm_payload :: jsval

text \<open>
  A subscribed handler is a function identified by a name; called with a message it
  either returns (\<open>None\<close>) or throws (\<open>Some err\<close>). An \<open>error\<close> listener registered on
  the bus likewise returns or throws. Handlers are taken not to subscribe or unsubscribe
  while a dispatch runs.
\<close>

type_synonym BusMessageHandler = "string \<times> (BusMessage \<Rightarrow> string option)"

type_synonym ErrorListener = "string \<Rightarrow> string \<Rightarrow> string option"

record MeshMessageBus =
  handlers :: "(string \<times> BusMessageHandler list) list"
  errorListeners :: "ErrorListener list"

datatype BusEffect =
    Invoked string BusMessage
  | EmitError string string

datatype Completion = Returned | Threw string

text \<open>
  \<open>emit('error', err, ns)\<close> on a Node.js \<open>EventEmitter\<close> (which \<open>TypedEventEmitter\<close>
  extends): with no \<open>error\<close> listener registered the error is thrown to the caller;
  otherwise the listeners run in order and an exception of a listener propagates.
\<close>

fun runErrorListeners :: "ErrorListener list \<Rightarrow> string \<Rightarrow> string \<Rightarrow> string option" where
  "runErrorListeners [] err ns = None"
| "runErrorListeners (l # ls) err ns =
     (case l err ns of Some thrown \<Rightarrow> Some thrown | None \<Rightarrow> runErrorListeners ls err ns)"

definition emitError :: "ErrorListener list \<Rightarrow> string \<Rightarrow> string \<Rightarrow> string option" where
  "emitError ls err ns = (if ls = [] then Some err else runErrorListeners ls err ns)"

text \<open>The \<open>for\<close> loop of \<open>dispatchMessage\<close> with its \<open>try\<close>/\<open>catch\<close>.\<close>

fun dispatchLoop ::
  "ErrorListener list \<Rightarrow> string \<Rightarrow> BusMessage \<Rightarrow> BusMessageHandler list
     \<Rightarrow> BusEffect list \<times> Completion" where
  "dispatchLoop ls ns busMessage [] = ([], Returned)"
| "dispatchLoop ls ns busMessage (h # hs) =
     (case snd h busMessage of
        None \<Rightarrow>
          (let (fx, c) = dispatchLoop ls ns busMessage hs
           in (Invoked (fst h) busMessage # fx, c))
      | Some err \<Rightarrow>
          (case emitError ls err ns of
             Some thrown \<Rightarrow> ([Invoked (fst h) busMessage, EmitError err ns], Threw thrown)
           | None \<Rightarrow>
               (let (fx, c) = dispatchLoop ls ns busMessage hs
                in (Invoked (fst h) busMessage # EmitError err ns # fx, c))))"

definition dispatchMessage ::
  "MeshMessageBus \<Rightarrow> IncomingMeshMessage \<Rightarrow> BusEffect list \<times> Completion" where
  "dispatchMessage bus msg =
     (case map_of (handlers bus) (im_namespace msg) of
        None \<Rightarrow> ([], Returned)
      | Some hs \<Rightarrow>
          if length hs = 0 then ([], Returned)
          else dispatchLoop (errorListeners bus) (im_namespace msg)
                 \<lparr>bm_from = im_from msg, bm_namespace = im_namespace msg,
                  bm_type = im_type msg, bm_payload = im_payload msg\<rparr> hs)"

text \<open>Scenarios: a node \<open>dev-1\<close> that is secondary to \<open>dev-3\<close>, holds a connected stream to
  \<open>dev-3\<close> and is still dialling \<open>dev-2\<close>; and a bus with two subscribers of namespace
  \<open>sync\<close>, the first of which throws, and no \<open>error\<close> listener.\<close>

definition diallingDev2 :: WebSocketTransport where
  "diallingDev2 =
     afterConnect ''dev-2'' ''myapp-desktop-dev-2''
       (fst (setConnectionDeviceId ''incoming:c3'' ''dev-3''
          (fst (handleWsConnect ''c3'' ''100.64.0.3:51000'' runningTransport))))"

definition secondaryNode :: "WebSocketTransport \<Rightarrow> string option \<Rightarrow> MeshNode" where
  "secondaryNode t p =
     \<lparr>deviceManager = dev1Manager, transport = t,
      election =
        \<lparr>config = Some \<lparr>cfg_deviceId = ''dev-1'', cfg_startedAt = 0, preferPrimary = False\<rparr>,
         phase = idle, el_primaryId = p, candidates = []\<rparr>\<rparr>"

definition chatEnvelope :: MeshEnvelope where
  "chatEnvelope =
     \<lparr>env_namespace = ''chat'', env_type = ''say'', env_payload = JStr ''hi'',
      env_timestamp = None\<rparr>"

definition throwingHandler :: BusMessageHandler where
  "throwingHandler = (''first'', \<lambda>m. Some ''boom'')"

definition quietHandler :: BusMessageHandler where
  "quietHandler = (''second'', \<lambda>m. None)"

definition busWithoutErrorListener :: MeshMessageBus where
  "busWithoutErrorListener =
     \<lparr>handlers = [(''sync'', [throwingHandler, quietHandler])], errorListeners = []\<rparr>"

definition syncUpdate :: IncomingMeshMessage where
  "syncUpdate =
     \<lparr>im_from = Some ''dev-2'', im_connectionId = ''conn-1'', im_namespace = ''sync'',
      im_type = ''update'', im_payload = JNull\<rparr>"

text \<open>The names of the handlers a dispatch invoked, in order.\<close>

fun invocations :: "BusEffect list \<Rightarrow> string list" where
  "invocations [] = []"
| "invocations (Invoked h m # fx) = h # invocations fx"
| "invocations (EmitError err ns # fx) = invocations fx"

section \<open>Verified properties\<close>

subsection \<open>Wire codec\<close>

lemma be32_digits:
  fixes n :: nat
  assumes "n < 4294967296"
  shows "(n div 16777216) mod 256 * 16777216 + (n div 65536) mod 256 * 65536
           + (n div 256) mod 256 * 256 + n mod 256 = n"
proof -
  define q1 where "q1 = n div 256"
  define q2 where "q2 = q1 div 256"
  define q3 where "q3 = q2 div 256"
  have e2: "n div 65536 = q2"
    unfolding q2_def q1_def by (simp add: div_mult2_eq [symmetric])
  have e3: "n div 16777216 = q3"
    unfolding q3_def q2_def q1_def by (simp add: div_mult2_eq [symmetric])
  have s0: "n = 256 * q1 + n mod 256" unfolding q1_def by simp
  have s1: "q1 = 256 * q2 + q1 mod 256" unfolding q2_def by simp
  have s2: "q2 = 256 * q3 + q2 mod 256" unfolding q3_def by simp
  have "q3 < 256" using assms by (simp add: less_mult_imp_div_less flip: e3)
  then have s3: "q3 mod 256 = q3" by simp
  show ?thesis
    unfolding e2 e3 s3 q1_def [symmetric]
    using s0 s1 s2 by linarith
qed

lemma length_writeUInt32BE: "length (writeUInt32BE n) = 4"
  by (simp add: writeUInt32BE_def)

lemma readUInt32BE_writeUInt32BE:
  "n < 4294967296 \<Longrightarrow> readUInt32BE (writeUInt32BE n @ rest) 0 = n"
  unfolding readUInt32BE_def writeUInt32BE_def
  using be32_digits [of n] by (simp add: unat_of_nat)

lemma flag_byte_at_4: "(writeUInt32BE n @ [flags] @ payload) ! 4 = flags"
  by (simp add: writeUInt32BE_def)

lemma payload_of_frame:
  "take (length payload) (drop HEADER_SIZE (writeUInt32BE n @ [flags] @ payload)) = payload"
  by (simp add: writeUInt32BE_def HEADER_SIZE_def)

lemma flag_of_bits:
  "flag_of fmt AND FLAG_COMPRESSED \<noteq> FLAG_COMPRESSED"
  "flag_of fmt AND FLAG_FORMAT_MASK = flag_of fmt"
  by (cases fmt; simp add: flag_of_def FLAG_COMPRESSED_def FLAG_FORMAT_MASK_def
        FLAG_FORMAT_MSGPACK_def FLAG_FORMAT_JSON_def)+

lemma isEnvelope_passes_check:
  assumes "isEnvelope m"
  shows "js_typeof m = ''object''" "m \<noteq> JNull"
    "js_typeof (js_prop m ''namespace'') = ''string''"
    "js_typeof (js_prop m ''type'') = ''string''"
  using assms by (cases m; simp add: isEnvelope_def)+

lemma deserialize_envelope:
  assumes "isEnvelope m" and "lib_parse L fmt payload = Some m"
  shows "deserialize L payload (flag_of fmt) = Inr m"
  using assms(2) isEnvelope_passes_check [OF assms(1)]
  by (cases fmt)
     (simp_all add: deserialize_def lib_parse_def flag_of_def FLAG_FORMAT_MSGPACK_def
        FLAG_FORMAT_JSON_def)

lemma encode_frame:
  assumes "length (lib_serialize L fmt m) \<le> MAX_MESSAGE_SIZE"
  shows "encode L dflt m (Some fmt)
           = Inr (writeUInt32BE (length (lib_serialize L fmt m)) @ [flag_of fmt]
                    @ lib_serialize L fmt m)"
  using assms
  by (cases fmt)
     (simp_all add: encode_def createFrame_def lib_serialize_def flag_of_def
        MAX_MESSAGE_SIZE_def)

lemma decodeOne_frame:
  assumes env: "isEnvelope m"
    and size: "length payload \<le> MAX_MESSAGE_SIZE"
    and parse: "lib_parse L fmt payload = Some m"
  shows "decodeOne L (writeUInt32BE (length payload) @ [flag_of fmt] @ payload)
           = Inr (Some \<lparr>message = m, bytesConsumed = HEADER_SIZE + length payload,
                        wasCompressed = False\<rparr>)"
proof -
  let ?frame = "writeUInt32BE (length payload) @ [flag_of fmt] @ payload"
  have lt: "length payload < 4294967296"
    using size by (simp add: MAX_MESSAGE_SIZE_def)
  have len: "readUInt32BE ?frame 0 = length payload"
    by (rule readUInt32BE_writeUInt32BE [OF lt])
  have flen: "length ?frame = HEADER_SIZE + length payload"
    by (simp add: length_writeUInt32BE HEADER_SIZE_def)
  have hdr: "\<not> length ?frame < HEADER_SIZE"
    unfolding flen by simp
  show ?thesis
    unfolding decodeOne_def Let_def len flag_byte_at_4 payload_of_frame
    using hdr size flen deserialize_envelope [OF env parse]
    by (simp add: flag_of_bits)
qed

text \<open>
  C1. Encoding an envelope and decoding the frame gives the envelope back, for both
  formats (chosen explicitly or through the codec's default), and the byte count
  reported equals the length of the frame. The envelope is any object with string
  \<open>namespace\<close> and \<open>type\<close> whose serialized form is at most 16 MiB and is read back by
  the format's own parser.
\<close>

theorem encode_decodeOne_roundtrip:
  assumes "isEnvelope e"
    and "useFormat = (case format of None \<Rightarrow> defaultFormat | Some f \<Rightarrow> f)"
    and "length (lib_serialize L useFormat e) \<le> MAX_MESSAGE_SIZE"
    and "lib_parse L useFormat (lib_serialize L useFormat e) = Some e"
  shows "\<exists>frame. encode L defaultFormat e format = Inr frame
           \<and> decodeOne L frame
               = Inr (Some \<lparr>message = e, bytesConsumed = length frame, wasCompressed = False\<rparr>)"
proof -
  let ?payload = "lib_serialize L useFormat e"
  let ?frame = "writeUInt32BE (length ?payload) @ [flag_of useFormat] @ ?payload"
  have "encode L defaultFormat e format = encode L defaultFormat e (Some useFormat)"
    using assms(2) by (cases format) (simp_all add: encode_def)
  then have enc: "encode L defaultFormat e format = Inr ?frame"
    using encode_frame [OF assms(3)] by simp
  have "length ?frame = HEADER_SIZE + length ?payload"
    by (simp add: length_writeUInt32BE HEADER_SIZE_def)
  then have "decodeOne L ?frame
      = Inr (Some \<lparr>message = e, bytesConsumed = length ?frame, wasCompressed = False\<rparr>)"
    using decodeOne_frame [OF assms(1) assms(3) assms(4)] by simp
  with enc show ?thesis by blast
qed

theorem encode_decodeOne_roundtrip_witness:
  "isEnvelope helloEnvelope
   \<and> length (lib_serialize sampleSerializers Json helloEnvelope) \<le> MAX_MESSAGE_SIZE
   \<and> lib_parse sampleSerializers Json (lib_serialize sampleSerializers Json helloEnvelope)
       = Some helloEnvelope
   \<and> (\<exists>frame. encode sampleSerializers Msgpack helloEnvelope (Some Json) = Inr frame
         \<and> decodeOne sampleSerializers frame
             = Inr (Some \<lparr>message = helloEnvelope, bytesConsumed = length frame,
                          wasCompressed = False\<rparr>))"
proof -
  have h1: "isEnvelope helloEnvelope"
    by (simp add: isEnvelope_def helloEnvelope_def)
  have h2: "Json = (case Some Json of None \<Rightarrow> Msgpack | Some f \<Rightarrow> f)"
    by simp
  have h3: "length (lib_serialize sampleSerializers Json helloEnvelope) \<le> MAX_MESSAGE_SIZE"
    by (simp add: lib_serialize_def sampleSerializers_def bytes_of_def helloText_def
        MAX_MESSAGE_SIZE_def)
  have h4: "lib_parse sampleSerializers Json
              (lib_serialize sampleSerializers Json helloEnvelope) = Some helloEnvelope"
    by (simp add: lib_parse_def lib_serialize_def sampleSerializers_def)
  from encode_decodeOne_roundtrip [OF h1 h2 h3 h4] h1 h3 h4 show ?thesis
    by blast
qed

lemma isEnvelope_iff_check:
  "isEnvelope v \<longleftrightarrow>
     \<not> (js_typeof v \<noteq> ''object'' \<or> v = JNull
        \<or> js_typeof (js_prop v ''namespace'') \<noteq> ''string''
        \<or> js_typeof (js_prop v ''type'') \<noteq> ''string'')"
  by (cases v) (simp_all add: isEnvelope_def)

lemma typeof_string_iff: "js_typeof v = ''string'' \<longleftrightarrow> (\<exists>s. v = JStr s)"
  by (cases v) simp_all

lemma isEnvelope_char:
  "isEnvelope v \<longleftrightarrow>
     (\<exists>fs n t. v = JObj fs \<and> map_of fs ''namespace'' = Some (JStr n)
        \<and> map_of fs ''type'' = Some (JStr t))"
  by (cases v) (auto simp: isEnvelope_def typeof_string_iff split: option.splits)

lemma deserialize_parsed:
  assumes "lib_parse L fmt payload = Some v"
  shows "deserialize L payload (flag_of fmt)
           = (if isEnvelope v then Inr v else Inl InvalidMessageFormat)"
  using assms unfolding isEnvelope_iff_check
  by (cases fmt)
     (simp_all add: deserialize_def lib_parse_def flag_of_def FLAG_FORMAT_MSGPACK_def
        FLAG_FORMAT_JSON_def)

text \<open>
  C6 (as the code has it). For a complete, uncompressed frame of a known format whose
  payload the format's parser reads as the value \<open>v\<close>, the synchronous decoder fails
  with the invalid-message error exactly when \<open>v\<close> is not an object whose \<open>namespace\<close>
  and \<open>type\<close> are both strings, and otherwise returns \<open>v\<close>. Only the type of the two
  fields is checked: the strings may be empty.
\<close>

theorem decodeOne_validates_string_fields:
  assumes "HEADER_SIZE \<le> length buffer"
    and "readUInt32BE buffer 0 \<le> MAX_MESSAGE_SIZE"
    and "HEADER_SIZE + readUInt32BE buffer 0 \<le> length buffer"
    and "buffer ! 4 AND FLAG_COMPRESSED \<noteq> FLAG_COMPRESSED"
    and "buffer ! 4 AND FLAG_FORMAT_MASK = flag_of fmt"
    and "lib_parse L fmt (take (readUInt32BE buffer 0) (drop HEADER_SIZE buffer)) = Some v"
  shows "decodeOne L buffer
           = (if isEnvelope v
              then Inr (Some \<lparr>message = v,
                             bytesConsumed = HEADER_SIZE + readUInt32BE buffer 0,
                             wasCompressed = False\<rparr>)
              else Inl InvalidMessageFormat)
         \<and> (isEnvelope v \<longleftrightarrow>
              (\<exists>fs n t. v = JObj fs \<and> map_of fs ''namespace'' = Some (JStr n)
                 \<and> map_of fs ''type'' = Some (JStr t)))"
  using assms(1-5) deserialize_parsed [OF assms(6)] isEnvelope_char [of v]
  by (simp add: decodeOne_def Let_def)

lemma emptyNamespaceFrame_facts:
  "HEADER_SIZE \<le> length emptyNamespaceFrame"
  "readUInt32BE emptyNamespaceFrame 0 = 27"
  "HEADER_SIZE + 27 \<le> length emptyNamespaceFrame"
  "emptyNamespaceFrame ! 4 AND FLAG_COMPRESSED \<noteq> FLAG_COMPRESSED"
  "emptyNamespaceFrame ! 4 AND FLAG_FORMAT_MASK = flag_of Json"
  "take 27 (drop HEADER_SIZE emptyNamespaceFrame) = bytes_of emptyNamespaceText"
  by (simp_all add: emptyNamespaceFrame_def bytes_of_def emptyNamespaceText_def
      HEADER_SIZE_def readUInt32BE_def FLAG_COMPRESSED_def FLAG_FORMAT_MASK_def
      FLAG_FORMAT_JSON_def flag_of_def)

theorem decodeOne_validates_string_fields_witness:
  "HEADER_SIZE \<le> length emptyNamespaceFrame
   \<and> readUInt32BE emptyNamespaceFrame 0 \<le> MAX_MESSAGE_SIZE
   \<and> HEADER_SIZE + readUInt32BE emptyNamespaceFrame 0 \<le> length emptyNamespaceFrame
   \<and> emptyNamespaceFrame ! 4 AND FLAG_COMPRESSED \<noteq> FLAG_COMPRESSED
   \<and> emptyNamespaceFrame ! 4 AND FLAG_FORMAT_MASK = flag_of Json
   \<and> lib_parse sampleSerializers Json
        (take (readUInt32BE emptyNamespaceFrame 0) (drop HEADER_SIZE emptyNamespaceFrame))
        = Some emptyNamespaceEnvelope
   \<and> isEnvelope emptyNamespaceEnvelope
   \<and> decodeOne sampleSerializers emptyNamespaceFrame
       = Inr (Some \<lparr>message = emptyNamespaceEnvelope, bytesConsumed = 32,
                    wasCompressed = False\<rparr>)"
proof -
  have h2: "readUInt32BE emptyNamespaceFrame 0 \<le> MAX_MESSAGE_SIZE"
    by (simp add: emptyNamespaceFrame_facts MAX_MESSAGE_SIZE_def)
  have h3: "HEADER_SIZE + readUInt32BE emptyNamespaceFrame 0 \<le> length emptyNamespaceFrame"
    using emptyNamespaceFrame_facts(3) by (simp add: emptyNamespaceFrame_facts(2))
  have h6: "lib_parse sampleSerializers Json
      (take (readUInt32BE emptyNamespaceFrame 0) (drop HEADER_SIZE emptyNamespaceFrame))
      = Some emptyNamespaceEnvelope"
    by (simp add: emptyNamespaceFrame_facts lib_parse_def sampleSerializers_def
        bytes_of_def emptyNamespaceText_def helloText_def)
  have env: "isEnvelope emptyNamespaceEnvelope"
    by (simp add: isEnvelope_def emptyNamespaceEnvelope_def)
  have "decodeOne sampleSerializers emptyNamespaceFrame
      = Inr (Some \<lparr>message = emptyNamespaceEnvelope, bytesConsumed = 32,
                   wasCompressed = False\<rparr>)"
    using decodeOne_validates_string_fields
      [OF emptyNamespaceFrame_facts(1) h2 h3 emptyNamespaceFrame_facts(4)
          emptyNamespaceFrame_facts(5) h6] env
    by (simp add: emptyNamespaceFrame_facts(2) HEADER_SIZE_def)
  then show ?thesis
    using emptyNamespaceFrame_facts(1,4,5) h2 h3 h6 env by blast
qed

text \<open>
  The frame \<open>00 00 00 1B 02\<close> followed by the JSON text
  \<^verbatim>\<open>{"namespace":"","type":"x"}\<close> is what \<open>encode\<close> produces for that envelope; the
  synchronous decoder returns the envelope, whose \<open>namespace\<close> is the empty string,
  instead of rejecting it.
\<close>

theorem empty_namespace_accepted:
  "encode sampleSerializers Json emptyNamespaceEnvelope None = Inr emptyNamespaceFrame
   \<and> js_prop emptyNamespaceEnvelope ''namespace'' = JStr ''''
   \<and> decodeOne sampleSerializers emptyNamespaceFrame
       = Inr (Some \<lparr>message = emptyNamespaceEnvelope, bytesConsumed = 32,
                    wasCompressed = False\<rparr>)"
  by (simp add: encode_def createFrame_def writeUInt32BE_def decodeOne_def readUInt32BE_def
      deserialize_def sampleSerializers_def emptyNamespaceFrame_def emptyNamespaceEnvelope_def
      helloEnvelope_def bytes_of_def emptyNamespaceText_def helloText_def
      HEADER_SIZE_def MAX_MESSAGE_SIZE_def FLAG_COMPRESSED_def FLAG_FORMAT_MASK_def
      FLAG_FORMAT_MSGPACK_def FLAG_FORMAT_JSON_def Let_def)

subsection \<open>Election ranking\<close>



























subsection \<open>Device table\<close>

lemma map_of_upsertListed:
  "map_of (upsertListed l ps ds) k \<noteq> None \<longleftrightarrow>
     map_of ds k \<noteq> None \<or> (k \<in> dev_id ` set ps \<and> k \<noteq> l)"
proof (induction ps arbitrary: ds)
  case Nil
  then show ?case by simp
next
  case (Cons p ps)
  show ?case
  proof (cases "dev_id p = l")
    case True
    then show ?thesis using Cons.IH [of ds] by auto
  next
    case False
    then show ?thesis
      using Cons.IH [of "AList.update (dev_id p) (keepKnownDNSName (map_of ds (dev_id p)) p) ds"]
      by (auto simp: update_conv')
  qed
qed

lemma map_of_set_roles:
  "map_of (map (\<lambda>(k, d). (k, f d)) ds) k = map_option f (map_of ds k)"
  by (induction ds) auto

lemma addDiscoveredPeer_table:
  "identity (fst (snd (addDiscoveredPeer peer dm))) = identity dm
   \<and> primaryId (fst (snd (addDiscoveredPeer peer dm))) = primaryId dm
   \<and> (map_of (devices dm) k \<noteq> None
        \<longrightarrow> map_of (devices (fst (snd (addDiscoveredPeer peer dm)))) k \<noteq> None)"
  by (auto simp: addDiscoveredPeer_def Let_def update_conv' split: option.splits)

lemma handleDeviceAnnounce_table:
  "identity (fst (handleDeviceAnnounce sender device dm)) = identity dm
   \<and> primaryId (fst (handleDeviceAnnounce sender device dm)) = primaryId dm
   \<and> (map_of (devices dm) k \<noteq> None
        \<longrightarrow> map_of (devices (fst (handleDeviceAnnounce sender device dm))) k \<noteq> None)"
  by (auto simp: handleDeviceAnnounce_def Let_def update_conv')

lemma markDeviceOffline_table:
  "identity (fst (markDeviceOffline deviceId dm)) = identity dm
   \<and> (primaryId (fst (markDeviceOffline deviceId dm)) = primaryId dm
       \<or> primaryId (fst (markDeviceOffline deviceId dm)) = None)
   \<and> (map_of (devices dm) k \<noteq> None
        \<longrightarrow> map_of (devices (fst (markDeviceOffline deviceId dm))) k \<noteq> None)"
  by (auto simp: markDeviceOffline_def Let_def update_conv' split: option.splits)

lemma primaryKnown_addDiscoveredPeer:
  "primaryKnown dm \<Longrightarrow> primaryKnown (fst (snd (addDiscoveredPeer peer dm)))"
  using addDiscoveredPeer_table [of peer dm]
  by (auto simp: primaryKnown_def split: option.splits)

lemma primaryKnown_handleDeviceAnnounce:
  "primaryKnown dm \<Longrightarrow> primaryKnown (fst (handleDeviceAnnounce sender device dm))"
  using handleDeviceAnnounce_table [of sender device dm]
  by (auto simp: primaryKnown_def split: option.splits)

lemma primaryKnown_markDeviceOffline:
  "primaryKnown dm \<Longrightarrow> primaryKnown (fst (markDeviceOffline deviceId dm))"
  using markDeviceOffline_table [of deviceId dm]
  by (auto simp: primaryKnown_def split: option.splits)

lemma primaryKnown_handleDeviceList:
  assumes "primaryKnown dm"
    and "list_primaryId payload = []
         \<or> list_primaryId payload \<in> dev_id ` set (list_devices payload)"
  shows "primaryKnown (fst (handleDeviceList sender payload dm))"
proof (cases "list_primaryId payload = []")
  case True
  then show ?thesis
    using assms(1) map_of_upsertListed [of "ident_id (identity dm)" "list_devices payload" "devices dm"]
    by (auto simp: handleDeviceList_def Let_def primaryKnown_def split: option.splits)
next
  case False
  with assms(2) have listed: "list_primaryId payload \<in> dev_id ` set (list_devices payload)"
    by simp
  show ?thesis
  proof (cases "list_primaryId payload = ident_id (identity dm)")
    case True
    with False show ?thesis
      by (simp add: handleDeviceList_def Let_def primaryKnown_def)
  next
    case notlocal: False
    have "map_of (upsertListed (ident_id (identity dm)) (list_devices payload) (devices dm))
            (list_primaryId payload) \<noteq> None"
      using listed notlocal
        map_of_upsertListed [of "ident_id (identity dm)" "list_devices payload" "devices dm"
          "list_primaryId payload"]
      by blast
    with False show ?thesis
      by (auto simp: handleDeviceList_def Let_def primaryKnown_def map_of_set_roles)
  qed
qed

lemma primaryKnown_applyOp:
  assumes "primaryKnown dm" and "listsItsPrimary op"
  shows "primaryKnown (fst (applyOp op dm))"
  using assms
  by (cases op)
     (simp_all add: primaryKnown_addDiscoveredPeer primaryKnown_handleDeviceAnnounce
        primaryKnown_handleDeviceList primaryKnown_markDeviceOffline handleDeviceGoodbye_def)

lemma primaryKnown_runOps:
  assumes "primaryKnown dm" and "\<forall>op\<in>set ops. listsItsPrimary op"
  shows "primaryKnown (fst (runOps ops dm))"
  using assms
proof (induction ops arbitrary: dm)
  case Nil
  then show ?case by simp
next
  case (Cons op ops)
  have "primaryKnown (fst (applyOp op dm))"
    using Cons.prems by (simp add: primaryKnown_applyOp)
  then have "primaryKnown (fst (runOps ops (fst (applyOp op dm))))"
    using Cons.IH Cons.prems(2) by simp
  then show ?case
    by (simp add: case_prod_unfold Let_def)
qed

lemma markDeviceOffline_primary:
  assumes "map_of (devices dm) deviceId = Some device" and "primaryId dm = Some deviceId"
  shows "primaryId (fst (markDeviceOffline deviceId dm)) = None
       \<and> map_option status (map_of (devices (fst (markDeviceOffline deviceId dm))) deviceId)
           = Some Offline
       \<and> PrimaryChanged None \<in> set (snd (markDeviceOffline deviceId dm))"
  using assms by (simp add: markDeviceOffline_def Let_def update_conv')

text \<open>
  C4 (as the code has it). Over every sequence of \<open>addDiscoveredPeer\<close>,
  \<open>handleDeviceAnnounce\<close>, \<open>handleDeviceList\<close>, \<open>handleDeviceGoodbye\<close> and
  \<open>markDeviceOffline\<close> in which each device list names no primary or lists its primary
  among its devices, the invariant is preserved: a primary id that is set is the id of
  the local device or of a row of the table. And \<open>markDeviceOffline\<close> (which
  \<open>handleDeviceGoodbye\<close> is) applied to the row whose id equals the primary id sets the row
  offline, unsets the primary id and fires \<open>primaryChanged(null)\<close>.
\<close>

theorem device_table_invariant:
  assumes "primaryKnown dm" and "\<forall>op\<in>set ops. listsItsPrimary op"
  shows "primaryKnown (fst (runOps ops dm))
       \<and> (\<forall>deviceId device.
            map_of (devices dm) deviceId = Some device \<longrightarrow> primaryId dm = Some deviceId \<longrightarrow>
              primaryId (fst (markDeviceOffline deviceId dm)) = None
              \<and> map_option status
                   (map_of (devices (fst (markDeviceOffline deviceId dm))) deviceId)
                  = Some Offline
              \<and> PrimaryChanged None \<in> set (snd (markDeviceOffline deviceId dm))
              \<and> handleDeviceGoodbye deviceId dm = markDeviceOffline deviceId dm)"
  using primaryKnown_runOps [OF assms] markDeviceOffline_primary
  by (simp add: handleDeviceGoodbye_def)

lemma sampleOps_run:
  "primaryKnown dev1Manager"
  "\<forall>op\<in>set sampleOps. listsItsPrimary op"
  "primaryId (fst (runOps (take 2 sampleOps) dev1Manager)) = Some ''dev-2''"
  "map_option status (map_of (devices (fst (runOps (take 2 sampleOps) dev1Manager))) ''dev-2'')
     = Some Online"
  "primaryKnown (fst (runOps (take 2 sampleOps) dev1Manager))"
  by (simp_all add: sampleOps_def dev1Manager_def newDeviceManager_def primaryKnown_def
      listDev2Primary_def remoteDev2_def peerDev2_def addDiscoveredPeer_def parseHostname_def
      handleDeviceList_def keepKnownDNSName_def truthy_def firstIP_def Let_def)

theorem device_table_invariant_witness:
  "primaryKnown (fst (runOps (take 2 sampleOps) dev1Manager))
   \<and> list_all listsItsPrimary (drop 2 sampleOps)
   \<and> primaryId (fst (runOps (take 2 sampleOps) dev1Manager)) = Some ''dev-2''
   \<and> primaryKnown (fst (runOps (drop 2 sampleOps) (fst (runOps (take 2 sampleOps) dev1Manager))))
   \<and> primaryId (fst (markDeviceOffline ''dev-2'' (fst (runOps (take 2 sampleOps) dev1Manager))))
       = None
   \<and> PrimaryChanged None
       \<in> set (snd (markDeviceOffline ''dev-2'' (fst (runOps (take 2 sampleOps) dev1Manager))))"
proof -
  let ?dm = "fst (runOps (take 2 sampleOps) dev1Manager)"
  have ops: "\<forall>op\<in>set (drop 2 sampleOps). listsItsPrimary op"
    by (simp add: sampleOps_def)
  obtain device where row: "map_of (devices ?dm) ''dev-2'' = Some device"
    using sampleOps_run(4) by auto
  note th = device_table_invariant [OF sampleOps_run(5) ops]
  from th have inv: "primaryKnown (fst (runOps (drop 2 sampleOps) ?dm))"
    by (rule conjunct1)
  from th [THEN conjunct2, rule_format, OF row sampleOps_run(3)]
  have "primaryId (fst (markDeviceOffline ''dev-2'' ?dm)) = None"
    and "PrimaryChanged None \<in> set (snd (markDeviceOffline ''dev-2'' ?dm))"
    by simp_all
  with inv ops sampleOps_run(3,5) show ?thesis by (simp add: list_all_iff)
qed

text \<open>
  A device list may name a primary that is neither the local device nor any row:
  \<open>handleDeviceList\<close> adopts the payload's \<open>primaryId\<close> as it is.
\<close>

theorem device_list_adopts_unknown_primary:
  "primaryKnown dev1Manager
   \<and> primaryId (fst (applyOp (OpDeviceList ''dev-2'' listGhostPrimary) dev1Manager))
       = Some ''ghost''
   \<and> devices (fst (applyOp (OpDeviceList ''dev-2'' listGhostPrimary) dev1Manager)) = []
   \<and> ident_id (identity (fst (applyOp (OpDeviceList ''dev-2'' listGhostPrimary) dev1Manager)))
       = ''dev-1''
   \<and> \<not> primaryKnown (fst (applyOp (OpDeviceList ''dev-2'' listGhostPrimary) dev1Manager))"
  by (simp add: dev1Manager_def newDeviceManager_def listGhostPrimary_def handleDeviceList_def
      primaryKnown_def Let_def)

text \<open>
  The other writers of \<open>status\<close> do not look at the primary id: a peer listing that
  reports the primary's row offline leaves the primary id set and fires no
  \<open>primaryChanged\<close>.
\<close>

lemma addDiscoveredPeer_offline_keeps_primaryId:
  "(case addDiscoveredPeer (peerDev2 '''' False) (fst (runOps (take 2 sampleOps) dev1Manager)) of
      (r, dm2, evs) \<Rightarrow>
        map_option status (map_of (devices dm2) ''dev-2'') = Some Offline
        \<and> primaryId dm2 = Some ''dev-2''
        \<and> PrimaryChanged None \<notin> set evs)"
  by (simp add: sampleOps_def dev1Manager_def newDeviceManager_def
      listDev2Primary_def remoteDev2_def peerDev2_def addDiscoveredPeer_def parseHostname_def
      handleDeviceList_def keepKnownDNSName_def truthy_def firstIP_def getDevices_def Let_def)

lemma addDiscoveredPeer_existing_dnsName:
  assumes "hostname peer \<noteq> ident_hostname (identity dm)"
    and "parseHostname (hostnamePrefix dm) (hostname peer) = Some (ty, ident)"
    and "map_of (devices dm) ident = Some existing"
  shows "map_option tailscaleDNSName
           (map_of (devices (fst (snd (addDiscoveredPeer peer dm)))) ident)
         = Some (Some (dnsName peer))"
  using assms by (simp add: addDiscoveredPeer_def Let_def update_conv')

lemma handleDeviceAnnounce_keeps_dnsName:
  assumes "map_of (devices dm) (dev_id device) = Some existing"
    and "truthy (tailscaleDNSName existing)" and "\<not> truthy (tailscaleDNSName device)"
  shows "map_option tailscaleDNSName
           (map_of (devices (fst (handleDeviceAnnounce sender device dm))) (dev_id device))
         = Some (tailscaleDNSName existing)"
  using assms
  by (simp add: handleDeviceAnnounce_def keepKnownDNSName_def Let_def update_conv')

text \<open>
  C7 at a concrete table. The peer \<open>myapp-desktop-dev-2\<close> is first listed with the DNS
  name \<open>myapp-desktop-dev-2.ts.net\<close> and then again with an empty one: the second
  \<open>addDiscoveredPeer\<close> updates the known device and replaces the recorded name by the
  empty string.
\<close>

theorem addDiscoveredPeer_overwrites_dnsName:
  "(case addDiscoveredPeer (peerDev2 ''myapp-desktop-dev-2.ts.net'' True) dev1Manager of
      (r1, dm1, evs1) \<Rightarrow>
        map_option tailscaleDNSName (map_of (devices dm1) ''dev-2'')
          = Some (Some ''myapp-desktop-dev-2.ts.net'')
        \<and> (case addDiscoveredPeer (peerDev2 '''' True) dm1 of
              (r2, dm2, evs2) \<Rightarrow>
                map_option tailscaleDNSName (map_of (devices dm2) ''dev-2'') = Some (Some '''')
                \<and> map_option tailscaleDNSName r2 = Some (Some '''')
                \<and> (\<exists>d. evs2 = [DeviceUpdated d, DevicesChanged [d]])))"
  by (simp add: dev1Manager_def newDeviceManager_def peerDev2_def addDiscoveredPeer_def
      parseHostname_def truthy_def firstIP_def getDevices_def Let_def)

subsection \<open>Connection transport\<close>

lemma setConnectionDeviceId_state:
  assumes "map_of (connections t) connectionId = Some conn"
  shows "connections (fst (setConnectionDeviceId connectionId d t))
           = AList.update connectionId (conn\<lparr>conn_deviceId := Some d\<rparr>) (connections t)"
    and "deviceToConnection (fst (setConnectionDeviceId connectionId d t))
           = AList.update d connectionId
               (case conn_deviceId conn of
                  Some old \<Rightarrow> if old \<noteq> [] then AList.delete old (deviceToConnection t)
                              else deviceToConnection t
                | None \<Rightarrow> deviceToConnection t)"
    and "snd (setConnectionDeviceId connectionId d t) = [EmitDeviceIdentified connectionId d]"
  using assms
  by (simp_all add: setConnectionDeviceId_def Let_def truthy_def split: option.splits)

text \<open>
  C5 (as the code has it). \<open>setConnectionDeviceId(c, d)\<close> on an existing connection \<open>c\<close>
  binds \<open>c\<close> to \<open>d\<close> whatever \<open>c\<close> was bound to before, drops the index entry of the
  previous device id, and makes the index map \<open>d\<close> to \<open>c\<close>, so that a lookup by \<open>d\<close>
  finds \<open>c\<close>. The index holds one connection id per device id; the rows of all other
  connections, and with them their device ids, are left as they are.
\<close>

theorem setConnectionDeviceId_rebinds:
  assumes "map_of (connections t) connectionId = Some conn"
  shows "map_of (connections (fst (setConnectionDeviceId connectionId d t))) connectionId
           = Some (conn\<lparr>conn_deviceId := Some d\<rparr>)
       \<and> map_of (deviceToConnection (fst (setConnectionDeviceId connectionId d t))) d
           = Some connectionId
       \<and> (connectionId \<noteq> [] \<longrightarrow>
            getConnectionByDeviceId d (fst (setConnectionDeviceId connectionId d t))
              = Some (conn\<lparr>conn_deviceId := Some d\<rparr>))
       \<and> (\<forall>old. conn_deviceId conn = Some old \<longrightarrow> old \<noteq> [] \<longrightarrow> old \<noteq> d \<longrightarrow>
            map_of (deviceToConnection (fst (setConnectionDeviceId connectionId d t))) old = None)
       \<and> (\<forall>c. c \<noteq> connectionId \<longrightarrow>
            map_of (connections (fst (setConnectionDeviceId connectionId d t))) c
              = map_of (connections t) c)
       \<and> snd (setConnectionDeviceId connectionId d t) = [EmitDeviceIdentified connectionId d]"
  unfolding getConnectionByDeviceId_def getConnection_def
    setConnectionDeviceId_state [OF assms]
  by (auto simp: update_conv' delete_conv' split: option.splits)

lemma dialledAndAccepted_rows:
  "connections dialledAndAccepted =
     [(''dial:dev-2'',
       \<lparr>conn_id = ''dial:dev-2'', conn_deviceId = Some ''dev-2'', direction = Outgoing,
        remoteAddr = ''100.64.0.2:443'', conn_status = ConnConnected\<rparr>),
      (''incoming:c1'',
       \<lparr>conn_id = ''incoming:c1'', conn_deviceId = Some ''dev-2'', direction = Incoming,
        remoteAddr = ''100.64.0.2:51000'', conn_status = ConnConnected\<rparr>)]"
  "deviceToConnection dialledAndAccepted = [(''dev-2'', ''incoming:c1'')]"
  by (simp_all add: dialledAndAccepted_def afterConnect_def connect_def runningTransport_def
      newTransport_def getConnectionByDeviceId_def getConnection_def cancelReconnect_def
      handleDialConnected_def handleWsConnect_def setConnectionDeviceId_def truthy_def Let_def)

theorem setConnectionDeviceId_rebinds_witness:
  "map_of (connections dialledAndAccepted) ''incoming:c1''
     = Some \<lparr>conn_id = ''incoming:c1'', conn_deviceId = Some ''dev-2'', direction = Incoming,
             remoteAddr = ''100.64.0.2:51000'', conn_status = ConnConnected\<rparr>
   \<and> getConnectionByDeviceId ''dev-3''
        (fst (setConnectionDeviceId ''incoming:c1'' ''dev-3'' dialledAndAccepted))
       = Some \<lparr>conn_id = ''incoming:c1'', conn_deviceId = Some ''dev-3'', direction = Incoming,
               remoteAddr = ''100.64.0.2:51000'', conn_status = ConnConnected\<rparr>
   \<and> map_of (deviceToConnection
        (fst (setConnectionDeviceId ''incoming:c1'' ''dev-3'' dialledAndAccepted))) ''dev-2''
       = None"
proof -
  have row: "map_of (connections dialledAndAccepted) ''incoming:c1''
     = Some \<lparr>conn_id = ''incoming:c1'', conn_deviceId = Some ''dev-2'', direction = Incoming,
             remoteAddr = ''100.64.0.2:51000'', conn_status = ConnConnected\<rparr>"
    by (simp add: dialledAndAccepted_rows)
  from setConnectionDeviceId_rebinds [OF row, of "''dev-3''"] row show ?thesis
    by simp
qed

text \<open>
  After \<open>dev-2\<close> has been dialled and has also connected inwards and announced itself,
  two connected rows carry the device id \<open>dev-2\<close> and the index names only the
  incoming one; a later announce of another id on that stream replaces its device id.
\<close>

theorem deviceId_shared_and_replaced:
  "map_option conn_deviceId (getConnection ''dial:dev-2'' dialledAndAccepted)
     = Some (Some ''dev-2'')
   \<and> map_option conn_status (getConnection ''dial:dev-2'' dialledAndAccepted)
       = Some ConnConnected
   \<and> map_option conn_deviceId (getConnection ''incoming:c1'' dialledAndAccepted)
       = Some (Some ''dev-2'')
   \<and> map_option conn_status (getConnection ''incoming:c1'' dialledAndAccepted)
       = Some ConnConnected
   \<and> map_option conn_id (getConnectionByDeviceId ''dev-2'' dialledAndAccepted)
       = Some ''incoming:c1''
   \<and> map_option conn_deviceId
        (getConnection ''incoming:c1''
           (fst (setConnectionDeviceId ''incoming:c1'' ''dev-3'' dialledAndAccepted)))
       = Some (Some ''dev-3'')"
  by (simp add: getConnection_def getConnectionByDeviceId_def dialledAndAccepted_rows
      setConnectionDeviceId_def truthy_def Let_def)

lemma scheduleReconnect_result:
  assumes "running t" and "autoReconnect t" and "map_of (reconnects t) d = Some info"
  shows "scheduleReconnect d t =
           (t\<lparr>reconnects :=
                AList.update d
                  (info\<lparr>attempt := attempt info + 1,
                        timer := Some (min (1000 * 2 ^ attempt info) (maxReconnectDelayMs t))\<rparr>)
                  (reconnects t)\<rparr>,
            [EmitReconnecting d (attempt info + 1)
               (min (1000 * 2 ^ attempt info) (maxReconnectDelayMs t)),
             SetReconnectTimer d (min (1000 * 2 ^ attempt info) (maxReconnectDelayMs t))])"
  using assms by (simp add: scheduleReconnect_def Let_def)

lemma handleDialDisconnect_schedules:
  assumes "running t" and "autoReconnect t" and "map_of (reconnects t) d = Some info"
    and "map_of (connections t) (''dial:'' @ d) = Some conn"
  shows "snd (handleDialDisconnect d reason t) =
           [EmitDisconnected (''dial:'' @ d)
              (case reason of
                 Some r \<Rightarrow> if r \<noteq> [] then r else ''remote_closed''
               | None \<Rightarrow> ''remote_closed''),
            EmitReconnecting d (attempt info + 1)
              (min (1000 * 2 ^ attempt info) (maxReconnectDelayMs t)),
            SetReconnectTimer d (min (1000 * 2 ^ attempt info) (maxReconnectDelayMs t))]"
  using assms by (simp add: handleDialDisconnect_def scheduleReconnect_def Let_def)

lemma handleDialConnected_resets:
  assumes "map_of (reconnects t) d = Some info"
    and "map_of (connections t) (''dial:'' @ d) = Some conn"
  shows "map_of (reconnects (fst (handleDialConnected d addr t))) d = Some (info\<lparr>attempt := 0\<rparr>)"
  using assms by (simp add: handleDialConnected_def Let_def update_conv')

text \<open>Every \<open>connect\<close> that dials leaves the device's ledger entry at attempt 0,
  whatever the entry counted before.\<close>

lemma connect_restarts_attempt:
  assumes "running t" and "autoReconnect t"
    and "map_option conn_status (getConnectionByDeviceId d t) \<noteq> Some ConnConnected"
  shows "snd (projr (connect d host dns port t)) = [SidecarDial d host dns port]
       \<and> map_option attempt (map_of (reconnects (fst (projr (connect d host dns port t)))) d)
           = Some 0"
proof -
  have nc: "\<not> (case getConnectionByDeviceId d t of
                 Some existing \<Rightarrow> conn_status existing = ConnConnected
               | None \<Rightarrow> False)"
    using assms(3) by (cases "getConnectionByDeviceId d t") auto
  show ?thesis
    unfolding connect_def using assms(1,2) nc
    by (simp add: cancelReconnect_def Let_def update_conv')
qed

text \<open>
  C8 at a concrete transport. \<open>dev-2\<close> is dialled, connects, and its stream drops: the
  first reconnect is scheduled as attempt 1 after 1000 ms. The timer fires and dials
  again, \<open>connect\<close> putting a fresh ledger entry with attempt 0 in place of the one that
  counted 1, and the dial is refused. No \<open>dialConnected\<close> came in between, so this is the
  second failure in a row, for which the backoff formula gives
  \<open>min(1000 * 2^(2-1), 30000) = 2000\<close> ms; the reconnect is scheduled as attempt 1 after
  1000 ms. The next refused redial is attempt 1 after 1000 ms again, where the formula
  gives 4000 ms.
\<close>

theorem refused_redial_restarts_backoff:
  "snd dev2Dropped
     = [EmitDisconnected ''dial:dev-2'' ''read pump closed'',
        EmitReconnecting ''dev-2'' 1 1000, SetReconnectTimer ''dev-2'' 1000]
   \<and> map_option attempt (map_of (reconnects (fst dev2Dropped)) ''dev-2'') = Some 1
   \<and> snd (redialRefused (fst dev2Dropped))
       = [SidecarDial ''dev-2'' ''myapp-desktop-dev-2'' None 443,
          EmitReconnecting ''dev-2'' 1 1000, SetReconnectTimer ''dev-2'' 1000]
   \<and> snd (redialRefused (fst (redialRefused (fst dev2Dropped))))
       = [SidecarDial ''dev-2'' ''myapp-desktop-dev-2'' None 443,
          EmitReconnecting ''dev-2'' 1 1000, SetReconnectTimer ''dev-2'' 1000]
   \<and> min (1000 * 2 ^ (2 - 1)) (maxReconnectDelayMs runningTransport) = 2000
   \<and> min (1000 * 2 ^ (3 - 1)) (maxReconnectDelayMs runningTransport) = 4000"
  by (simp add: dev2Dropped_def dev2Connected_def redialRefused_def afterConnect_def
      connect_def runningTransport_def newTransport_def getConnectionByDeviceId_def
      getConnection_def cancelReconnect_def handleDialConnected_def
      handleDialDisconnect_def scheduleReconnect_def reconnectTimerFired_def
      reconnectFailed_def connectRejected_def Let_def)

subsection \<open>Mesh node\<close>

lemma sendRaw_row:
  assumes "map_of (connections t) (conn_id conn) = Some conn"
  shows "sendRaw (conn_id conn) data t
           = (if conn_status conn = ConnConnected then (True, [wireSend conn data])
              else (False, []))"
  using assms by (simp add: sendRaw_def wireSend_def split: option.splits)

lemma sendEnvelopeDirect_row:
  assumes "getConnectionByDeviceId d (transport node) = Some conn"
    and "getConnection (conn_id conn) (transport node) = Some conn"
  shows "sendEnvelopeDirect stringify now node d env
           = (if conn_status conn = ConnConnected
              then (True, [Transport (wireSend conn (stringify (stampedEnvelope now env)))])
              else (False, []))"
  using assms(1) sendRaw_row [of "transport node" conn] assms(2)
  by (simp add: sendEnvelopeDirect_def getConnection_def Let_def)

lemma sendEnvelopeDirect_no_row:
  assumes "getConnectionByDeviceId d (transport node) = None"
  shows "sendEnvelopeDirect stringify now node d env = (False, [])"
  using assms by (simp add: sendEnvelopeDirect_def)

text \<open>
  C3 (as the code has it). \<open>sendEnvelope(t, e)\<close> by cases. If \<open>t\<close> is the local device
  id, \<open>e\<close> is surfaced as a local incoming message and the call returns true. Else, if
  the index yields a connection for \<open>t\<close>, the stamped envelope is handed to that
  connection: it is sent, and the call returns true, when the connection is connected;
  otherwise nothing is sent and the call returns false. Else, if the node is not
  primary and a primary id is known, a \<open>mesh\<close>/\<open>route:message\<close> envelope wrapping
  \<open>{targetDeviceId: t, envelope: e}\<close> is handed in the same way to the connection of the
  primary: sent when that connection exists and is connected, and otherwise the call
  returns false with nothing sent. In every other case the call returns false, sending
  and surfacing nothing. The bus's \<open>publish\<close> returns what \<open>sendEnvelope\<close> returns for the
  envelope it builds.
\<close>

theorem sendEnvelope_cases:
  "(d = ident_id (identity (deviceManager node)) \<longrightarrow>
      sendEnvelope stringify now node d env
        = (True, [EmitMessage \<lparr>im_from = Some d, im_connectionId = ''local'',
                              im_namespace = env_namespace env, im_type = env_type env,
                              im_payload = env_payload env\<rparr>]))
   \<and> (d \<noteq> ident_id (identity (deviceManager node)) \<longrightarrow>
        getConnectionByDeviceId d (transport node) = Some conn \<longrightarrow>
        getConnection (conn_id conn) (transport node) = Some conn \<longrightarrow>
        sendEnvelope stringify now node d env
          = (if conn_status conn = ConnConnected
             then (True, [Transport (wireSend conn (stringify (stampedEnvelope now env)))])
             else (False, [])))
   \<and> (d \<noteq> ident_id (identity (deviceManager node)) \<longrightarrow>
        getConnectionByDeviceId d (transport node) = None \<longrightarrow>
        \<not> isPrimary (election node) \<longrightarrow> getPrimaryId (election node) = Some p \<longrightarrow> p \<noteq> [] \<longrightarrow>
        (getConnectionByDeviceId p (transport node) = Some pconn \<longrightarrow>
         getConnection (conn_id pconn) (transport node) = Some pconn \<longrightarrow>
         sendEnvelope stringify now node d env
           = (if conn_status pconn = ConnConnected
              then (True, [Transport (wireSend pconn
                             (stringify (stampedEnvelope now
                                \<lparr>env_namespace = ''mesh'', env_type = ''route:message'',
                                 env_payload = JObj [(''targetDeviceId'', JStr d),
                                                     (''envelope'', envelopeObject env)],
                                 env_timestamp = None\<rparr>)))])
              else (False, [])))
        \<and> (getConnectionByDeviceId p (transport node) = None \<longrightarrow>
             sendEnvelope stringify now node d env = (False, [])))
   \<and> (d \<noteq> ident_id (identity (deviceManager node)) \<longrightarrow>
        getConnectionByDeviceId d (transport node) = None \<longrightarrow>
        isPrimary (election node) \<or> \<not> truthy (getPrimaryId (election node)) \<longrightarrow>
        sendEnvelope stringify now node d env
          = (False, [LogWarn (''No connection to device '' @ d)]))
   \<and> publish stringify now node d ns ty pl
       = sendEnvelope stringify now node d
           \<lparr>env_namespace = ns, env_type = ty, env_payload = pl, env_timestamp = None\<rparr>"
proof (intro conjI impI)
  assume "d = ident_id (identity (deviceManager node))"
  then show "sendEnvelope stringify now node d env
        = (True, [EmitMessage \<lparr>im_from = Some d, im_connectionId = ''local'',
                              im_namespace = env_namespace env, im_type = env_type env,
                              im_payload = env_payload env\<rparr>])"
    by (simp add: sendEnvelope_def localMessage_def)
next
  assume "d \<noteq> ident_id (identity (deviceManager node))"
    and c: "getConnectionByDeviceId d (transport node) = Some conn"
    and r: "getConnection (conn_id conn) (transport node) = Some conn"
  then show "sendEnvelope stringify now node d env
          = (if conn_status conn = ConnConnected
             then (True, [Transport (wireSend conn (stringify (stampedEnvelope now env)))])
             else (False, []))"
    using sendEnvelopeDirect_row [OF c r] by (simp add: sendEnvelope_def)
next
  assume nl: "d \<noteq> ident_id (identity (deviceManager node))"
    and nc: "getConnectionByDeviceId d (transport node) = None"
    and np: "\<not> isPrimary (election node)"
    and p: "getPrimaryId (election node) = Some p" "p \<noteq> []"
    and c: "getConnectionByDeviceId p (transport node) = Some pconn"
    and r: "getConnection (conn_id pconn) (transport node) = Some pconn"
  have "sendEnvelope stringify now node d env
      = sendEnvelopeDirect stringify now node p (routeMessageEnvelope d env)"
    using nl nc np p by (simp add: sendEnvelope_def)
  then show "sendEnvelope stringify now node d env
           = (if conn_status pconn = ConnConnected
              then (True, [Transport (wireSend pconn
                             (stringify (stampedEnvelope now
                                \<lparr>env_namespace = ''mesh'', env_type = ''route:message'',
                                 env_payload = JObj [(''targetDeviceId'', JStr d),
                                                     (''envelope'', envelopeObject env)],
                                 env_timestamp = None\<rparr>)))])
              else (False, []))"
    using sendEnvelopeDirect_row [OF c r]
    by (simp add: routeMessageEnvelope_def MESH_NAMESPACE_def)
next
  assume nl: "d \<noteq> ident_id (identity (deviceManager node))"
    and nc: "getConnectionByDeviceId d (transport node) = None"
    and np: "\<not> isPrimary (election node)"
    and p: "getPrimaryId (election node) = Some p" "p \<noteq> []"
    and c: "getConnectionByDeviceId p (transport node) = None"
  have "sendEnvelope stringify now node d env
      = sendEnvelopeDirect stringify now node p (routeMessageEnvelope d env)"
    using nl nc np p by (simp add: sendEnvelope_def)
  then show "sendEnvelope stringify now node d env = (False, [])"
    using sendEnvelopeDirect_no_row [OF c] by simp
next
  assume "d \<noteq> ident_id (identity (deviceManager node))"
    and "getConnectionByDeviceId d (transport node) = None"
    and "isPrimary (election node) \<or> \<not> truthy (getPrimaryId (election node))"
  then show "sendEnvelope stringify now node d env
          = (False, [LogWarn (''No connection to device '' @ d)])"
    by (auto simp: sendEnvelope_def truthy_def split: option.splits)
next
  show "publish stringify now node d ns ty pl
       = sendEnvelope stringify now node d
           \<lparr>env_namespace = ns, env_type = ty, env_payload = pl, env_timestamp = None\<rparr>"
    by (simp add: publish_def)
qed

lemma diallingDev2_rows:
  "connections diallingDev2 =
     [(''incoming:c3'',
       \<lparr>conn_id = ''incoming:c3'', conn_deviceId = Some ''dev-3'', direction = Incoming,
        remoteAddr = ''100.64.0.3:51000'', conn_status = ConnConnected\<rparr>),
      (''dial:dev-2'',
       \<lparr>conn_id = ''dial:dev-2'', conn_deviceId = Some ''dev-2'', direction = Outgoing,
        remoteAddr = ''myapp-desktop-dev-2:443'', conn_status = ConnConnecting\<rparr>)]"
  "deviceToConnection diallingDev2 = [(''dev-3'', ''incoming:c3''), (''dev-2'', ''dial:dev-2'')]"
  by (simp_all add: diallingDev2_def afterConnect_def connect_def runningTransport_def
      newTransport_def getConnectionByDeviceId_def getConnection_def cancelReconnect_def
      handleWsConnect_def setConnectionDeviceId_def truthy_def Let_def)

lemma secondaryNode_parts:
  "transport (secondaryNode t p) = t"
  "ident_id (identity (deviceManager (secondaryNode t p))) = ''dev-1''"
  "getPrimaryId (election (secondaryNode t p)) = p"
  "isPrimary (election (secondaryNode t p)) = (p = Some ''dev-1'')"
  by (auto simp: secondaryNode_def dev1Manager_def newDeviceManager_def getPrimaryId_def
      isPrimary_def split: option.splits)

theorem sendEnvelope_cases_witness:
  "sendEnvelope (\<lambda>v. ''{}'') 5 (secondaryNode diallingDev2 (Some ''dev-3'')) ''dev-1'' chatEnvelope
     = (True, [EmitMessage \<lparr>im_from = Some ''dev-1'', im_connectionId = ''local'',
                           im_namespace = ''chat'', im_type = ''say'',
                           im_payload = JStr ''hi''\<rparr>])
   \<and> sendEnvelope (\<lambda>v. ''{}'') 5 (secondaryNode diallingDev2 (Some ''dev-3'')) ''dev-3'' chatEnvelope
       = (True, [Transport (SidecarSendToConnection ''c3'' ''{}'')])
   \<and> sendEnvelope (\<lambda>v. ''{}'') 5 (secondaryNode diallingDev2 (Some ''dev-3'')) ''dev-4'' chatEnvelope
       = (True, [Transport (SidecarSendToConnection ''c3'' ''{}'')])
   \<and> sendEnvelope (\<lambda>v. ''{}'') 5 (secondaryNode diallingDev2 None) ''dev-4'' chatEnvelope
       = (False, [LogWarn ''No connection to device dev-4''])"
proof -
  let ?n = "secondaryNode diallingDev2 (Some ''dev-3'')"
  let ?c3 = "\<lparr>conn_id = ''incoming:c3'', conn_deviceId = Some ''dev-3'', direction = Incoming,
        remoteAddr = ''100.64.0.3:51000'', conn_status = ConnConnected\<rparr>"
  note th = sendEnvelope_cases [where stringify = "\<lambda>v. ''{}''" and now = 5
      and env = chatEnvelope and conn = ?c3 and pconn = ?c3 and p = "''dev-3''"]
  have c3: "getConnectionByDeviceId ''dev-3'' diallingDev2 = Some ?c3"
    "getConnection ''incoming:c3'' diallingDev2 = Some ?c3"
    "getConnectionByDeviceId ''dev-4'' diallingDev2 = None"
    by (simp_all add: getConnectionByDeviceId_def getConnection_def diallingDev2_rows)
  have w: "wireSend ?c3 ''{}'' = SidecarSendToConnection ''c3'' ''{}''"
    by (simp add: wireSend_def)
  have 1: "sendEnvelope (\<lambda>v. ''{}'') 5 ?n ''dev-1'' chatEnvelope
     = (True, [EmitMessage \<lparr>im_from = Some ''dev-1'', im_connectionId = ''local'',
                           im_namespace = ''chat'', im_type = ''say'',
                           im_payload = JStr ''hi''\<rparr>])"
    using th [of "''dev-1''" ?n, THEN conjunct1]
    by (simp add: secondaryNode_parts chatEnvelope_def)
  have 2: "sendEnvelope (\<lambda>v. ''{}'') 5 ?n ''dev-3'' chatEnvelope
       = (True, [Transport (SidecarSendToConnection ''c3'' ''{}'')])"
    using th [of "''dev-3''" ?n, THEN conjunct2, THEN conjunct1] c3 w
    by (simp add: secondaryNode_parts)
  have 3: "sendEnvelope (\<lambda>v. ''{}'') 5 ?n ''dev-4'' chatEnvelope
       = (True, [Transport (SidecarSendToConnection ''c3'' ''{}'')])"
    using th [of "''dev-4''" ?n, THEN conjunct2, THEN conjunct2, THEN conjunct1] c3 w
    by (simp add: secondaryNode_parts)
  have 4: "sendEnvelope (\<lambda>v. ''{}'') 5 (secondaryNode diallingDev2 None) ''dev-4'' chatEnvelope
       = (False, [LogWarn ''No connection to device dev-4''])"
    using th [of "''dev-4''" "secondaryNode diallingDev2 None",
        THEN conjunct2, THEN conjunct2, THEN conjunct2, THEN conjunct1] c3
    by (simp add: secondaryNode_parts truthy_def)
  from 1 2 3 4 show ?thesis by simp
qed

text \<open>
  While \<open>dev-2\<close> is being dialled its placeholder row is bound to \<open>dev-2\<close> with status
  \<open>connecting\<close>: \<open>sendEnvelope\<close> finds the connection, sends nothing and returns false,
  although the node is secondary, knows its primary \<open>dev-3\<close> and is connected to it.
\<close>

theorem connecting_row_sends_nothing:
  "map_option conn_deviceId (getConnectionByDeviceId ''dev-2'' diallingDev2)
     = Some (Some ''dev-2'')
   \<and> map_option conn_status (getConnectionByDeviceId ''dev-2'' diallingDev2)
       = Some ConnConnecting
   \<and> \<not> isPrimary (election (secondaryNode diallingDev2 (Some ''dev-3'')))
   \<and> map_option conn_status (getConnectionByDeviceId ''dev-3'' diallingDev2)
       = Some ConnConnected
   \<and> (\<forall>stringify now.
        sendEnvelope stringify now (secondaryNode diallingDev2 (Some ''dev-3'')) ''dev-2''
          chatEnvelope = (False, []))
   \<and> (\<forall>stringify now.
        publish stringify now (secondaryNode diallingDev2 (Some ''dev-3'')) ''dev-2''
          ''chat'' ''say'' (JStr ''hi'') = (False, []))"
  by (simp add: publish_def sendEnvelope_def sendEnvelopeDirect_def sendRaw_def
      getConnectionByDeviceId_def getConnection_def diallingDev2_rows secondaryNode_parts
      Let_def)

text \<open>
  C10. On a node that is not primary and knows no primary id, \<open>broadcastEnvelope\<close> does
  nothing: it sends on no connection, surfaces no local message, logs and raises
  nothing, and returns. The same holds for the bus's \<open>broadcast\<close>, which forwards to it.
\<close>

theorem broadcastEnvelope_without_primary:
  assumes "\<not> isPrimary (election node)" and "\<not> truthy (getPrimaryId (election node))"
  shows "broadcastEnvelope stringify now node env = []
       \<and> broadcast stringify now node ns ty pl = []"
  using assms
  by (auto simp: broadcast_def broadcastEnvelope_def truthy_def split: option.splits)

theorem broadcastEnvelope_without_primary_witness:
  "\<not> isPrimary (election (secondaryNode diallingDev2 None))
   \<and> \<not> truthy (getPrimaryId (election (secondaryNode diallingDev2 None)))
   \<and> broadcastEnvelope (\<lambda>v. ''{}'') 5 (secondaryNode diallingDev2 None) chatEnvelope = []
   \<and> broadcast (\<lambda>v. ''{}'') 5 (secondaryNode diallingDev2 None) ''chat'' ''say'' (JStr ''hi'') = []"
proof -
  have h1: "\<not> isPrimary (election (secondaryNode diallingDev2 None))"
    by (simp add: secondaryNode_parts)
  have h2: "\<not> truthy (getPrimaryId (election (secondaryNode diallingDev2 None)))"
    by (simp add: secondaryNode_parts truthy_def)
  from broadcastEnvelope_without_primary [OF h1 h2] h1 h2 show ?thesis
    by blast
qed

subsection \<open>Message bus\<close>

lemma runErrorListeners_quiet:
  assumes "\<forall>l\<in>set ls. \<forall>err ns. l err ns = None"
  shows "runErrorListeners ls err ns = None"
  using assms by (induction ls) simp_all

lemma dispatchLoop_with_error_listener:
  assumes "ls \<noteq> []" and "\<forall>l\<in>set ls. \<forall>err ns. l err ns = None"
  shows "snd (dispatchLoop ls ns m hs) = Returned
       \<and> invocations (fst (dispatchLoop ls ns m hs)) = map fst hs"
proof (induction hs)
  case Nil
  then show ?case by simp
next
  case (Cons h hs)
  have quiet: "\<And>err. emitError ls err ns = None"
    using assms by (simp add: emitError_def runErrorListeners_quiet)
  show ?case
    using Cons.IH quiet
    by (cases "snd h m") (simp_all add: case_prod_unfold)
qed

text \<open>
  C9 at a concrete bus. Two handlers are subscribed to \<open>sync\<close>; the first throws
  \<open>boom\<close>; no \<open>error\<close> listener is registered on the bus. The dispatch invokes the
  first handler, catches its exception and emits \<open>error\<close>; the emitter, having no
  listener for \<open>error\<close>, throws, which leaves the loop: the second handler is never
  invoked and the exception reaches the caller of the dispatch.
\<close>

theorem dispatch_stops_without_error_listener:
  "dispatchMessage busWithoutErrorListener syncUpdate
     = ([Invoked ''first'' \<lparr>bm_from = Some ''dev-2'', bm_namespace = ''sync'',
                            bm_type = ''update'', bm_payload = JNull\<rparr>,
         EmitError ''boom'' ''sync''],
        Threw ''boom'')
   \<and> invocations (fst (dispatchMessage busWithoutErrorListener syncUpdate)) = [''first'']"
  by (simp add: dispatchMessage_def busWithoutErrorListener_def syncUpdate_def
      throwingHandler_def quietHandler_def emitError_def)

end
